theory Spec2Isabelle
  imports Complex_Main "HOL-Library.AList" "HOL-Library.Signed_Division" "HOL-Library.Multiset"
begin

section \<open>Data model (src/types/dex.ts)\<close>

text \<open>
  Conventions of the embedding.
  \<^item> A JavaScript \<open>Map\<close> keeps its keys in insertion order, \<open>set\<close> on a present key
    replaces the value in place and \<open>delete\<close> removes the entry: it is an association
    list handled with \<open>map_of\<close>, \<open>AList.update\<close> and \<open>AList.delete\<close>.
  \<^item> Token amounts are decimal strings of integers in the source (\<open>toAmount\<close>,
    \<open>amount\<close>, ...); they are represented by the integer they denote, which is what
    \<open>BigInt(...)\<close> reads from them. \<open>BigInt\<close> division truncates towards zero: \<open>sdiv\<close>.
  \<^item> A JavaScript number is a double. \<open>parseFloat\<close>, which turns an amount into a
    number, is a parameter \<open>parseFloat :: int \<Rightarrow> real\<close> of every function that calls
    it; \<open>parseFloat_js\<close> below is the function JavaScript computes. The arithmetic on
    the slippage is rounded to a double after each operation (\<open>roundDouble\<close>).
    Comparisons of numbers are the comparisons of their values. The tolerance test of the
    aggregator takes its difference and quotient exactly, and the results that
    JavaScript gives for a zero divisor (\<open>NaN\<close>, \<open>Infinity\<close>) are written out there.
  \<^item> \<open>Date.now()\<close> is an explicit argument (milliseconds).
  \<^item> A promise that rejects, or a \<open>throw\<close>, is \<open>Inl\<close> of the error message.
  \<^item> Remote services (HTTP APIs, the router contract, the RPC provider) are functions
    of an environment record: what they answer is not decided by this program.
\<close>

datatype DEXProtocol =
    UNISWAP_V2 | UNISWAP_V3 | SUSHISWAP | PANCAKESWAP | CURVE | BALANCER
  | ONEINCH | PARASWAP | DODO | KYBER | NINE_MM

text \<open>\<open>ISwapQuote\<close>, without the fields that none of the operations below reads
  (\<open>fromToken\<close>, \<open>toToken\<close>, \<open>priceImpact\<close>, \<open>gasPrice\<close>, \<open>route\<close>).\<close>

record ISwapQuote =
  dexProtocol :: DEXProtocol
  fromAmount :: int
  toAmount :: int
  toAmountMin :: int
  slippage :: real
  gasEstimate :: int
  validUntil :: int
  chainId :: int

record ISwapParams =
  p_fromToken :: string
  p_toToken :: string
  p_amount :: int
  p_slippage :: real
  p_deadline :: int
  p_chainId :: int
  p_dexProtocol :: DEXProtocol
  p_userAddress :: string

record savings_t =
  sv_amount :: real
  sv_percentage :: "real option"

record IDEXAggregatorQuote =
  bestQuote :: ISwapQuote
  allQuotes :: "ISwapQuote list"
  savings :: savings_t
  recommendedDEX :: DEXProtocol

record api_error =
  code :: string
  message :: string

type_synonym 'a IAPIResponse = "api_error + 'a"

section \<open>JavaScript numbers\<close>

text \<open>\<open>roundDouble x\<close> is the binary64 number nearest to the real \<open>x\<close>, ties going to
  the even significand: the value of an arithmetic operation on doubles is \<open>roundDouble\<close>
  of its exact result. The number is written with 53 significant bits in the binade
  \<open>2 ^ e \<le> \<bar>x\<bar> < 2 ^ (e + 1)\<close>. The exponent is not bounded here: overflow to \<open>Infinity\<close>
  (above \<open>2 ^ 1024\<close>) and the coarser subnormal numbers (below \<open>2 ^ -1022\<close>) are not
  modelled.\<close>

definition round_half_even :: "real \<Rightarrow> int" where
  "round_half_even y =
     (let f = \<lfloor>y\<rfloor>; r = y - of_int f in
      if r < 1 / 2 then f else if 1 / 2 < r then f + 1 else if even f then f else f + 1)"

definition roundDouble :: "real \<Rightarrow> real" where
  "roundDouble x =
     (if x = 0 then 0
      else (let e = \<lfloor>log 2 \<bar>x\<bar>\<rfloor>; u = 2 powi (e - 52) in
            sgn x * (of_int (round_half_even (\<bar>x\<bar> / u)) * u)))"

text \<open>\<open>parseFloat\<close> of the decimal string of an integer: the nearest double.\<close>

definition parseFloat_js :: "int \<Rightarrow> real" where
  "parseFloat_js n = roundDouble (of_int n)"

section \<open>DEX aggregator (services/dex-aggregator.ts)\<close>

record IDEXAPIConfig =
  c_protocol :: DEXProtocol
  c_name :: string
  c_supportedChains :: "int list"
  c_isActive :: bool

type_synonym dexConfigs_t = "(DEXProtocol \<times> IDEXAPIConfig) list"

definition initializeDEXConfigs :: dexConfigs_t where
  "initializeDEXConfigs = foldl (\<lambda>m c. AList.update (c_protocol c) c m) []
     [ \<lparr>c_protocol = ONEINCH, c_name = ''1inch'',
          c_supportedChains = [1, 56, 137, 42161, 10, 8453], c_isActive = True\<rparr>,
       \<lparr>c_protocol = PARASWAP, c_name = ''ParaSwap'',
          c_supportedChains = [1, 56, 137, 42161, 10, 43114], c_isActive = True\<rparr>,
       \<lparr>c_protocol = UNISWAP_V3, c_name = ''Uniswap V3'',
          c_supportedChains = [1, 137, 42161, 10, 8453], c_isActive = True\<rparr>,
       \<lparr>c_protocol = SUSHISWAP, c_name = ''SushiSwap'',
          c_supportedChains = [1, 56, 137, 42161, 10], c_isActive = True\<rparr>,
       \<lparr>c_protocol = PANCAKESWAP, c_name = ''PancakeSwap'',
          c_supportedChains = [56], c_isActive = True\<rparr>,
       \<lparr>c_protocol = NINE_MM, c_name = ''9MM DEX Aggregator'',
          c_supportedChains = [8453, 369, 146], c_isActive = True\<rparr> ]"

text \<open>The JSON bodies the venues answer with; \<open>None\<close> where the request itself fails
  (network error, timeout, non-2xx status, empty body). A body that arrives is taken to be
  well-formed: the amount fields of 1inch and ParaSwap hold decimal integers. The
  \<open>buyAmount\<close> of 9MM may be missing, which the adapter tests for.\<close>

record oneinch_data =
  toTokenAmount :: int
  estimatedGas :: int

record paraswap_data =
  destAmount :: int
  gasCost :: int

record ninemm_data =
  buyAmount :: "int option"
  nm_estimatedGas :: "int option"

record venues =
  oneinch_api :: "ISwapParams \<Rightarrow> oneinch_data option"
  paraswap_api :: "ISwapParams \<Rightarrow> paraswap_data option"
  ninemm_api :: "ISwapParams \<Rightarrow> ninemm_data option"

definition get1inchQuote :: "venues \<Rightarrow> int \<Rightarrow> ISwapParams \<Rightarrow> string + ISwapQuote" where
  "get1inchQuote v now params =
     (case oneinch_api v params of
        None \<Rightarrow> Inl ''1inch request failed''
      | Some d \<Rightarrow> Inr \<lparr>dexProtocol = ONEINCH, fromAmount = p_amount params,
          toAmount = toTokenAmount d, toAmountMin = toTokenAmount d,
          slippage = p_slippage params, gasEstimate = estimatedGas d,
          validUntil = now + 30000, chainId = p_chainId params\<rparr>)"

definition getParaswapQuote :: "venues \<Rightarrow> int \<Rightarrow> ISwapParams \<Rightarrow> string + ISwapQuote" where
  "getParaswapQuote v now params =
     (case paraswap_api v params of
        None \<Rightarrow> Inl ''ParaSwap request failed''
      | Some d \<Rightarrow> Inr \<lparr>dexProtocol = PARASWAP, fromAmount = p_amount params,
          toAmount = destAmount d, toAmountMin = destAmount d,
          slippage = p_slippage params, gasEstimate = gasCost d,
          validUntil = now + 30000, chainId = p_chainId params\<rparr>)"

definition getUniswapQuote :: "ISwapParams \<Rightarrow> string + ISwapQuote" where
  "getUniswapQuote params = Inl ''Uniswap quote integration not yet implemented - use SDK''"

definition getSushiswapQuote :: "ISwapParams \<Rightarrow> string + ISwapQuote" where
  "getSushiswapQuote params = Inl ''SushiSwap quote integration not yet implemented''"

definition getPancakeswapQuote :: "ISwapParams \<Rightarrow> string + ISwapQuote" where
  "getPancakeswapQuote params = Inl ''PancakeSwap quote integration not yet implemented''"

text \<open>\<open>toAmountMin\<close> of the 9MM adapter:
  \<open>BigInt(buyAmount) * BigInt(Math.floor((100 - slippage) * 100)) / BigInt(10000)\<close>.
  The subtraction and the multiplication are operations on doubles.\<close>

definition nineMM_toAmountMin :: "int \<Rightarrow> real \<Rightarrow> int" where
  "nineMM_toAmountMin buy slip =
     (buy * \<lfloor>roundDouble (roundDouble (100 - slip) * 100)\<rfloor>) sdiv 10000"

definition get9MMQuote :: "venues \<Rightarrow> int \<Rightarrow> ISwapParams \<Rightarrow> string + ISwapQuote" where
  "get9MMQuote v now params =
     (if p_chainId params \<notin> {369, 8453, 146} then Inl ''9MM API not available for chain''
      else case ninemm_api v params of
        None \<Rightarrow> Inl ''9MM request failed''
      | Some d \<Rightarrow> Inr \<lparr>dexProtocol = NINE_MM, fromAmount = p_amount params,
          toAmount = (case buyAmount d of Some b \<Rightarrow> b | None \<Rightarrow> 0),
          toAmountMin = (case buyAmount d of
                           Some b \<Rightarrow> nineMM_toAmountMin b (p_slippage params)
                         | None \<Rightarrow> 0),
          slippage = p_slippage params,
          gasEstimate = (case nm_estimatedGas d of Some g \<Rightarrow> g | None \<Rightarrow> 300000),
          validUntil = now + 30000, chainId = p_chainId params\<rparr>)"

text \<open>The \<open>switch\<close> of \<open>getQuoteFromDEX\<close> over the protocol. (An HTTP client exists for
  exactly the protocols that have a configuration, so the test \<open>!config || !client\<close> is
  the lookup of the configuration.)\<close>

definition quoteByProtocol :: "venues \<Rightarrow> int \<Rightarrow> DEXProtocol \<Rightarrow> ISwapParams \<Rightarrow> string + ISwapQuote" where
  "quoteByProtocol v now protocol params =
     (case protocol of
        ONEINCH \<Rightarrow> get1inchQuote v now params
      | PARASWAP \<Rightarrow> getParaswapQuote v now params
      | UNISWAP_V3 \<Rightarrow> getUniswapQuote params
      | SUSHISWAP \<Rightarrow> getSushiswapQuote params
      | PANCAKESWAP \<Rightarrow> getPancakeswapQuote params
      | NINE_MM \<Rightarrow> get9MMQuote v now params
      | _ \<Rightarrow> Inl ''Quote method not implemented'')"

definition getQuoteFromDEX ::
  "dexConfigs_t \<Rightarrow> venues \<Rightarrow> int \<Rightarrow> DEXProtocol \<Rightarrow> ISwapParams \<Rightarrow> ISwapQuote IAPIResponse" where
  "getQuoteFromDEX cfgs v now protocol params =
     (let thrown = (\<lambda>m. Inl \<lparr>code = ''DEX_QUOTE_ERROR'', message = m\<rparr>) in
      case map_of cfgs protocol of
        None \<Rightarrow> thrown ''DEX not configured''
      | Some config \<Rightarrow>
          if p_chainId params \<notin> set (c_supportedChains config)
          then thrown ''Chain not supported''
          else (case quoteByProtocol v now protocol params of
                  Inl m \<Rightarrow> thrown m
                | Inr quote \<Rightarrow> Inr quote))"

definition getAvailableDEXsForChain :: "dexConfigs_t \<Rightarrow> int \<Rightarrow> DEXProtocol list" where
  "getAvailableDEXsForChain cfgs cid =
     map fst (filter (\<lambda>(protocol, config). c_isActive config \<and> cid \<in> set (c_supportedChains config)) cfgs)"

text \<open>\<open>Array.prototype.reduce\<close> without an initial value: the first element starts the
  accumulator; on an empty array JavaScript throws a \<open>TypeError\<close>.\<close>

fun reduce :: "('a \<Rightarrow> 'a \<Rightarrow> 'a) \<Rightarrow> 'a list \<Rightarrow> 'a option" where
  "reduce f [] = None"
| "reduce f (x # xs) = Some (foldl f x xs)"

text \<open>\<open>(bestAmount - nineMMAmount) / bestAmount <= 0.01\<close> on JavaScript numbers. With a
  zero divisor the quotient is \<open>NaN\<close> (numerator zero), \<open>Infinity\<close> (numerator
  positive) or \<open>-Infinity\<close> (numerator negative); only the last is \<open><= 0.01\<close>.\<close>

definition within_tolerance :: "real \<Rightarrow> real \<Rightarrow> bool" where
  "within_tolerance bestAmount nineMMAmount =
     (if bestAmount = 0 then bestAmount - nineMMAmount < 0
      else (bestAmount - nineMMAmount) / bestAmount \<le> 1 / 100)"

definition is9MMChain :: "int \<Rightarrow> bool" where
  "is9MMChain cid = (cid \<in> {8453, 369, 146})"

text \<open>The quotes that survive: the adapters run in the order of \<open>availableDEXs\<close>, 9MM
  first on a 9MM chain; a rejected or unsuccessful result is logged and dropped.\<close>

definition availableDEXs :: "dexConfigs_t \<Rightarrow> int \<Rightarrow> DEXProtocol list" where
  "availableDEXs cfgs cid =
     (let avail = getAvailableDEXsForChain cfgs cid in
      if is9MMChain cid then NINE_MM # filter (\<lambda>dex. dex \<noteq> NINE_MM) avail else avail)"

definition validQuotes :: "dexConfigs_t \<Rightarrow> venues \<Rightarrow> int \<Rightarrow> ISwapParams \<Rightarrow> ISwapQuote list" where
  "validQuotes cfgs v now params =
     List.map_filter (\<lambda>dex. case getQuoteFromDEX cfgs v now dex params of
                               Inl e \<Rightarrow> None | Inr q \<Rightarrow> Some q)
       (availableDEXs cfgs (p_chainId params))"

text \<open>The selection made from the surviving quotes (lines 200 to 239 of the source).\<close>

definition selectBest :: "(int \<Rightarrow> real) \<Rightarrow> bool \<Rightarrow> ISwapQuote list \<Rightarrow> IDEXAggregatorQuote IAPIResponse" where
  "selectBest parseFloat nineChain quotes =
     (case reduce (\<lambda>best current.
              if parseFloat (toAmount current) > parseFloat (toAmount best) then current else best) quotes of
        None \<Rightarrow> Inl \<lparr>code = ''AGGREGATOR_ERROR'', message = ''No valid quotes found from any DEX''\<rparr>
      | Some best0 \<Rightarrow>
         (let best =
               (if nineChain then
                  (case find (\<lambda>q. dexProtocol q = NINE_MM) quotes of
                     Some nineMMQuote \<Rightarrow>
                       if within_tolerance (parseFloat (toAmount best0)) (parseFloat (toAmount nineMMQuote))
                       then nineMMQuote else best0
                   | None \<Rightarrow> best0)
                else best0);
              worst = foldl (\<lambda>worst current.
                  if parseFloat (toAmount current) < parseFloat (toAmount worst) then current else worst)
                  (hd quotes) (tl quotes);
              diff = parseFloat (toAmount best) - parseFloat (toAmount worst)
          in Inr \<lparr>bestQuote = best, allQuotes = quotes,
                  savings = \<lparr>sv_amount = diff,
                     sv_percentage = (if parseFloat (toAmount worst) = 0 then None
                                      else Some (diff / parseFloat (toAmount worst) * 100))\<rparr>,
                  recommendedDEX = dexProtocol best\<rparr>))"

definition getBestQuote ::
  "(int \<Rightarrow> real) \<Rightarrow> dexConfigs_t \<Rightarrow> venues \<Rightarrow> int \<Rightarrow> ISwapParams \<Rightarrow> IDEXAggregatorQuote IAPIResponse" where
  "getBestQuote parseFloat cfgs v now params =
     selectBest parseFloat (is9MMChain (p_chainId params)) (validQuotes cfgs v now params)"

definition updateDEXConfig ::
  "dexConfigs_t \<Rightarrow> DEXProtocol \<Rightarrow> (IDEXAPIConfig \<Rightarrow> IDEXAPIConfig) \<Rightarrow> dexConfigs_t" where
  "updateDEXConfig cfgs protocol updates =
     (case map_of cfgs protocol of
        Some existingConfig \<Rightarrow> AList.update protocol (updates existingConfig) cfgs
      | None \<Rightarrow> cfgs)"

section \<open>9MM service (services/nine-mm-service.ts)\<close>

record I9MMSwapParams =
  np_chainId :: int
  np_fromToken :: string
  np_toToken :: string
  np_amount :: int
  np_slippage :: real
  np_userAddress :: string
  np_deadline :: "int option"

record I9MMSwapQuote =
  nq_chainId :: int
  nq_fromToken :: string
  nq_toToken :: string
  nq_fromAmount :: int
  nq_toAmount :: int
  nq_toAmountMin :: int
  nq_fee :: real
  nq_gasEstimate :: int
  nq_route :: "string list"
  nq_validUntil :: int

text \<open>An ethers \<open>Wallet\<close>: the signer built from a private key.\<close>

record Wallet =
  wl_address :: string
  wl_privateKey :: string

text \<open>What a \<open>Contract\<close> is connected to. A contract whose runner is a bare provider can
  read (\<open>getAmountsOut\<close>, \<open>estimateGas\<close>); calling a state-changing method on it throws
  in ethers before anything is sent.\<close>

datatype runner = Provider | Signer Wallet

record swap_call =
  sc_amountIn :: int
  sc_amountOutMin :: int
  sc_path :: "string list"
  sc_to :: string
  sc_deadline :: int
  sc_gasLimit :: "int option"

record receipt =
  rc_gasUsed :: int
  rc_blockNumber :: int

text \<open>The chains, seen through JSON-RPC. \<open>None\<close> is a call that throws (revert, network
  error). \<open>rpc_send\<close> is the one state-changing call: the submission of a signed
  \<open>swapExactTokensForTokens\<close> transaction, answering the transaction hash.\<close>

record rpc =
  rpc_getAmountsOut :: "int \<Rightarrow> int \<Rightarrow> string list \<Rightarrow> int list option"
  rpc_estimateGas :: "int \<Rightarrow> swap_call \<Rightarrow> int option"
  rpc_send :: "int \<Rightarrow> Wallet \<Rightarrow> swap_call \<Rightarrow> string option"
  rpc_getBalance :: "int \<Rightarrow> string \<Rightarrow> int option"
  rpc_waitForTransaction :: "int \<Rightarrow> string \<Rightarrow> receipt option option"

record NineMMService =
  nm_providers :: "int list"
  nm_contracts :: "(int \<times> runner) list"

definition SUPPORTED_9MM_CHAINS :: "int list" where
  "SUPPORTED_9MM_CHAINS = [8453, 369, 146]"

text \<open>\<open>get9MMConfig\<close> throws for a chain outside \<open>CHAIN_9MM_CONFIGS\<close>.\<close>

definition get9MMConfig :: "int \<Rightarrow> string + unit" where
  "get9MMConfig cid = (if cid \<in> set SUPPORTED_9MM_CHAINS then Inr () else Inl ''9MM not deployed on chain'')"

text \<open>\<open>getRouterContract\<close>: the router of a chain is built once and cached under
  \<open>router-<chainId>\<close>, connected to the signer if one is passed on that first call and to
  the provider otherwise; later calls return the cached contract whatever they pass.\<close>

definition getRouterContract :: "NineMMService \<Rightarrow> int \<Rightarrow> Wallet option \<Rightarrow> (string + runner) \<times> NineMMService" where
  "getRouterContract nm cid signer =
     (case map_of (nm_contracts nm) cid of
        Some r \<Rightarrow> (Inr r, nm)
      | None \<Rightarrow>
         (case get9MMConfig cid of
            Inl e \<Rightarrow> (Inl e, nm)
          | Inr _ \<Rightarrow>
             (case signer of
                Some w \<Rightarrow> (Inr (Signer w), nm\<lparr>nm_contracts := AList.update cid (Signer w) (nm_contracts nm)\<rparr>)
              | None \<Rightarrow>
                  if cid \<in> set (nm_providers nm)
                  then (Inr Provider, nm\<lparr>nm_contracts := AList.update cid Provider (nm_contracts nm)\<rparr>)
                  else (Inl ''No provider for chain'', nm))))"

text \<open>\<open>params.deadline || Math.floor(Date.now() / 1000) + 1200\<close>: a missing deadline and
  the deadline \<open>0\<close> are both falsy.\<close>

definition deadlineOr :: "int option \<Rightarrow> int \<Rightarrow> int" where
  "deadlineOr d now = (case d of Some x \<Rightarrow> (if x = 0 then now div 1000 + 1200 else x)
                               | None \<Rightarrow> now div 1000 + 1200)"

text \<open>\<open>toAmountMin\<close> of \<open>getSwapQuote\<close>:
  \<open>slippageBN = BigInt(Math.floor(slippage * 100))\<close>,
  \<open>toAmountBN * (10000n - slippageBN) / 10000n\<close>.
  The multiplication \<open>slippage * 100\<close> is an operation on doubles.\<close>

definition swapQuote_toAmountMin :: "int \<Rightarrow> real \<Rightarrow> int" where
  "swapQuote_toAmountMin toAmountBN slip =
     (let slippageBN = \<lfloor>roundDouble (slip * 100)\<rfloor> in
      (toAmountBN * (10000 - slippageBN)) sdiv 10000)"

definition NINE_MM_FEES_v2 :: real where
  "NINE_MM_FEES_v2 = 17 / 10000"

text \<open>\<open>getSwapQuote\<close>. The \<open>priceImpact\<close> field (a floating-point estimate that no
  other code reads) is left out of the quote.\<close>

definition getSwapQuote ::
  "NineMMService \<Rightarrow> rpc \<Rightarrow> int \<Rightarrow> I9MMSwapParams \<Rightarrow> (string + I9MMSwapQuote) \<times> NineMMService" where
  "getSwapQuote nm ch now params =
     (case get9MMConfig (np_chainId params) of
        Inl e \<Rightarrow> (Inl e, nm)
      | Inr _ \<Rightarrow>
         if np_chainId params \<notin> set (nm_providers nm) then (Inl ''No provider for chain'', nm)
         else (case getRouterContract nm (np_chainId params) None of
            (Inl e, nm') \<Rightarrow> (Inl e, nm')
          | (Inr router, nm') \<Rightarrow>
             (let path = [np_fromToken params, np_toToken params] in
              case rpc_getAmountsOut ch (np_chainId params) (np_amount params) path of
                None \<Rightarrow> (Inl ''getAmountsOut failed'', nm')
              | Some amountsOut \<Rightarrow>
                 if length amountsOut < 2 then (Inl ''TypeError: amountsOut[1] is undefined'', nm')
                 else
                  (let toAmt = amountsOut ! 1;
                       toAmtMin = swapQuote_toAmountMin toAmt (np_slippage params) in
                   case rpc_estimateGas ch (np_chainId params)
                          \<lparr>sc_amountIn = np_amount params, sc_amountOutMin = toAmtMin,
                            sc_path = path, sc_to = np_userAddress params,
                            sc_deadline = deadlineOr (np_deadline params) now,
                            sc_gasLimit = None\<rparr> of
                     None \<Rightarrow> (Inl ''estimateGas failed'', nm')
                   | Some gas \<Rightarrow>
                      (Inr \<lparr>nq_chainId = np_chainId params, nq_fromToken = np_fromToken params,
                             nq_toToken = np_toToken params, nq_fromAmount = np_amount params,
                             nq_toAmount = toAmt, nq_toAmountMin = toAmtMin,
                             nq_fee = NINE_MM_FEES_v2, nq_gasEstimate = gas, nq_route = path,
                             nq_validUntil = now + 30000\<rparr>, nm')))))"

text \<open>\<open>NineMMService.executeSwap\<close>. The third component lists the transactions handed
  to the chain for submission, in order.\<close>

definition nineMM_executeSwap ::
  "NineMMService \<Rightarrow> rpc \<Rightarrow> int \<Rightarrow> I9MMSwapParams \<Rightarrow> Wallet \<Rightarrow>
     (string + string) \<times> NineMMService \<times> (Wallet \<times> swap_call) list" where
  "nineMM_executeSwap nm ch now params signer =
     (case getSwapQuote nm ch now params of
        (Inl e, nm1) \<Rightarrow> (Inl e, nm1, [])
      | (Inr quote, nm1) \<Rightarrow>
         (case getRouterContract nm1 (np_chainId params) (Some signer) of
            (Inl e, nm2) \<Rightarrow> (Inl e, nm2, [])
          | (Inr Provider, nm2) \<Rightarrow>
              (Inl ''contract runner does not support sending transactions'', nm2, [])
          | (Inr (Signer w), nm2) \<Rightarrow>
             (let tx = \<lparr>sc_amountIn = np_amount params, sc_amountOutMin = nq_toAmountMin quote,
                         sc_path = [np_fromToken params, np_toToken params],
                         sc_to = np_userAddress params,
                         sc_deadline = deadlineOr (np_deadline params) now,
                         sc_gasLimit = Some (nq_gasEstimate quote)\<rparr> in
              case rpc_send ch (np_chainId params) w tx of
                None \<Rightarrow> (Inl ''transaction rejected'', nm2, [(w, tx)])
              | Some hash \<Rightarrow> (Inr hash, nm2, [(w, tx)]))))"

text \<open>\<open>Array.prototype.sort\<close> with a comparator is a stable sort: elements the
  comparator calls equal keep their order. For a comparator that orders by a key this
  fixes the result, which insertion from the right computes.\<close>

fun insert_by :: "('a \<Rightarrow> 'a \<Rightarrow> int) \<Rightarrow> 'a \<Rightarrow> 'a list \<Rightarrow> 'a list" where
  "insert_by cmp x [] = [x]"
| "insert_by cmp x (y # ys) = (if cmp x y \<le> 0 then x # y # ys else y # insert_by cmp x ys)"

definition js_sort :: "('a \<Rightarrow> 'a \<Rightarrow> int) \<Rightarrow> 'a list \<Rightarrow> 'a list" where
  "js_sort cmp xs = foldr (insert_by cmp) xs []"

text \<open>The parameters \<open>compareChainPrices\<close> quotes a chain with; the recipient is
  \<open>ethers.ZeroAddress\<close>.\<close>

definition compareParams :: "int \<Rightarrow> string \<Rightarrow> string \<Rightarrow> int \<Rightarrow> I9MMSwapParams" where
  "compareParams cid fromTok toTok amt =
     \<lparr>np_chainId = cid, np_fromToken = fromTok, np_toToken = toTok, np_amount = amt,
       np_slippage = 1 / 2,
       np_userAddress = ''0x0000000000000000000000000000000000000000'',
       np_deadline = None\<rparr>"

text \<open>The loop of \<open>compareChainPrices\<close> over \<open>[8453, 369, 146]\<close>: a chain whose quote
  throws is logged and skipped.\<close>

fun collectQuotes ::
  "rpc \<Rightarrow> int \<Rightarrow> string \<Rightarrow> string \<Rightarrow> int \<Rightarrow> int list \<Rightarrow> NineMMService \<Rightarrow> I9MMSwapQuote list
     \<Rightarrow> I9MMSwapQuote list \<times> NineMMService" where
  "collectQuotes ch now fromTok toTok amt [] nm quotes = (quotes, nm)"
| "collectQuotes ch now fromTok toTok amt (cid # cids) nm quotes =
     (case getSwapQuote nm ch now (compareParams cid fromTok toTok amt) of
        (Inr quote, nm') \<Rightarrow> collectQuotes ch now fromTok toTok amt cids nm' (quotes @ [quote])
      | (Inl e, nm') \<Rightarrow> collectQuotes ch now fromTok toTok amt cids nm' quotes)"

text \<open>\<open>compareChainPrices\<close>, an \<open>async\<close> function: \<open>Inl\<close> would be a rejected promise.
  The comparator is \<open>Number(BigInt(b.toAmount) - BigInt(a.toAmount))\<close>, whose sign is
  that of the difference.\<close>

definition compareChainPrices ::
  "NineMMService \<Rightarrow> rpc \<Rightarrow> int \<Rightarrow> string \<Rightarrow> string \<Rightarrow> int \<Rightarrow> (string + I9MMSwapQuote list) \<times> NineMMService" where
  "compareChainPrices nm ch now fromTok toTok amt =
     (case collectQuotes ch now fromTok toTok amt [8453, 369, 146] nm [] of
        (quotes, nm') \<Rightarrow> (Inr (js_sort (\<lambda>a b. nq_toAmount b - nq_toAmount a) quotes), nm'))"

definition getBestChainForPair ::
  "NineMMService \<Rightarrow> rpc \<Rightarrow> int \<Rightarrow> string \<Rightarrow> string \<Rightarrow> int \<Rightarrow> (string + I9MMSwapQuote option) \<times> NineMMService" where
  "getBestChainForPair nm ch now fromTok toTok amt =
     (case compareChainPrices nm ch now fromTok toTok amt of
        (Inl e, nm') \<Rightarrow> (Inl e, nm')
      | (Inr quotes, nm') \<Rightarrow> (Inr (case quotes of [] \<Rightarrow> None | q # _ \<Rightarrow> Some q), nm'))"

section \<open>Wallet service (services/wallet-service.ts)\<close>

record WalletService =
  ws_wallets :: "(int \<times> Wallet) list"
  ws_providers :: "int list"

record IWalletInfo =
  wi_address :: string
  wi_chainId :: int
  wi_nativeBalance :: int
  wi_connected :: bool

record tx_metadata =
  md_dexUsed :: DEXProtocol
  md_quotedAmount :: int
  md_savings :: "savings_t option"

text \<open>A successful \<open>ITransactionResult\<close>; the unsuccessful one (\<open>success: false\<close> with the
  error message) is \<open>Inl\<close> of the message.\<close>

record tx_success =
  tr_txHash :: string
  tr_gasUsed :: "int option"
  tr_blockNumber :: "int option"
  tr_metadata :: tx_metadata

type_synonym ITransactionResult = "string + tx_success"

text \<open>\<open>importWallet\<close>, from the point where the \<open>Wallet\<close> has been built from the key: the
  loop that connects it to each chain. A throw inside the loop leaves the connections
  made so far.\<close>

fun importLoop ::
  "rpc \<Rightarrow> Wallet \<Rightarrow> int list \<Rightarrow> WalletService \<Rightarrow> IWalletInfo list
     \<Rightarrow> (string + IWalletInfo list) \<times> WalletService" where
  "importLoop ch w [] ws infos = (Inr infos, ws)"
| "importLoop ch w (cid # cids) ws infos =
     (if cid \<notin> set (ws_providers ws) then importLoop ch w cids ws infos
      else
        (let ws' = ws\<lparr>ws_wallets := AList.update cid w (ws_wallets ws)\<rparr> in
         case rpc_getBalance ch cid (wl_address w) of
           None \<Rightarrow> (Inl ''getBalance failed'', ws')
         | Some balance \<Rightarrow>
            (case get9MMConfig cid of
               Inl e \<Rightarrow> (Inl e, ws')
             | Inr _ \<Rightarrow> importLoop ch w cids ws'
                 (infos @ [\<lparr>wi_address = wl_address w, wi_chainId = cid,
                             wi_nativeBalance = balance, wi_connected = True\<rparr>]))))"

definition importWallet ::
  "WalletService \<Rightarrow> rpc \<Rightarrow> Wallet \<Rightarrow> int list \<Rightarrow> (string + IWalletInfo list) \<times> WalletService" where
  "importWallet ws ch w cids = importLoop ch w cids ws []"

text \<open>What \<open>Wallet.createRandom()\<close> produced.\<close>

record random_wallet =
  rw_privateKey :: string
  rw_mnemonic :: "string option"
  rw_address :: string

record generated_wallet =
  gw_walletInfo :: "IWalletInfo list"
  gw_privateKey :: string
  gw_mnemonic :: string
  gw_address :: string

definition generateWallet ::
  "WalletService \<Rightarrow> rpc \<Rightarrow> random_wallet \<Rightarrow> int list \<Rightarrow> (string + generated_wallet) \<times> WalletService" where
  "generateWallet ws ch rw cids =
     (case importWallet ws ch \<lparr>wl_address = rw_address rw, wl_privateKey = rw_privateKey rw\<rparr> cids of
        (Inl e, ws') \<Rightarrow> (Inl e, ws')
      | (Inr walletInfos, ws') \<Rightarrow>
          (Inr \<lparr>gw_walletInfo = walletInfos, gw_privateKey = rw_privateKey rw,
                 gw_mnemonic = (case rw_mnemonic rw of Some phrase \<Rightarrow> phrase | None \<Rightarrow> []),
                 gw_address = rw_address rw\<rparr>, ws'))"

text \<open>\<open>checkGasBalance\<close>: the minimum is \<open>ethers.parseEther('0.001')\<close>.\<close>

definition checkGasBalance :: "WalletService \<Rightarrow> rpc \<Rightarrow> int \<Rightarrow> string \<Rightarrow> string + unit" where
  "checkGasBalance ws ch cid addr =
     (if cid \<notin> set (ws_providers ws) then Inr ()
      else case rpc_getBalance ch cid addr of
        None \<Rightarrow> Inl ''getBalance failed''
      | Some balance \<Rightarrow>
         (case get9MMConfig cid of
            Inl e \<Rightarrow> Inl e
          | Inr _ \<Rightarrow> if balance < 10 ^ 15 then Inl ''Insufficient balance for gas'' else Inr ()))"

text \<open>The end of \<open>WalletService.executeSwap\<close>, after \<open>nineMMService.executeSwap\<close> has
  answered: wait for the receipt and build the result.\<close>

definition confirmSwap ::
  "WalletService \<Rightarrow> rpc \<Rightarrow> int \<Rightarrow> IDEXAggregatorQuote
     \<Rightarrow> (string + string) \<times> NineMMService \<times> (Wallet \<times> swap_call) list
     \<Rightarrow> ITransactionResult \<times> NineMMService \<times> (Wallet \<times> swap_call) list" where
  "confirmSwap ws ch cid agg outcome =
     (case outcome of
        (Inl e, nm', sent) \<Rightarrow> (Inl e, nm', sent)
      | (Inr txHash, nm', sent) \<Rightarrow>
          if cid \<in> set (ws_providers ws) then
            (case rpc_waitForTransaction ch cid txHash of
               None \<Rightarrow> (Inl ''waitForTransaction failed'', nm', sent)
             | Some rcpt \<Rightarrow>
                 (Inr \<lparr>tr_txHash = txHash, tr_gasUsed = map_option rc_gasUsed rcpt,
                        tr_blockNumber = map_option rc_blockNumber rcpt,
                        tr_metadata = \<lparr>md_dexUsed = dexProtocol (bestQuote agg),
                                        md_quotedAmount = toAmount (bestQuote agg),
                                        md_savings = Some (savings agg)\<rparr>\<rparr>, nm', sent))
          else
            (Inr \<lparr>tr_txHash = txHash, tr_gasUsed = None, tr_blockNumber = None,
                   tr_metadata = \<lparr>md_dexUsed = dexProtocol (bestQuote agg),
                                   md_quotedAmount = toAmount (bestQuote agg),
                                   md_savings = None\<rparr>\<rparr>, nm', sent))"

text \<open>The \<open>ISwapParams\<close> that \<open>WalletService.executeSwap\<close> passes to the aggregator.\<close>

definition aggregatorParams :: "int \<Rightarrow> I9MMSwapParams \<Rightarrow> ISwapParams" where
  "aggregatorParams now params =
     \<lparr>p_fromToken = np_fromToken params, p_toToken = np_toToken params,
       p_amount = np_amount params, p_slippage = np_slippage params,
       p_deadline = deadlineOr (np_deadline params) now,
       p_chainId = np_chainId params, p_dexProtocol = NINE_MM,
       p_userAddress = np_userAddress params\<rparr>"

text \<open>\<open>WalletService.executeSwap\<close>. The clock is read twice: \<open>now_quote\<close> while the
  aggregator builds its quotes (their \<open>validUntil\<close> is \<open>now_quote + 30000\<close>), and
  \<open>now_submit\<close> when \<open>nineMMService.executeSwap\<close> runs, after the awaited remote calls.
  The result comes with the transactions handed to the chain.\<close>

definition executeSwap ::
  "(int \<Rightarrow> real) \<Rightarrow> WalletService \<Rightarrow> NineMMService \<Rightarrow> dexConfigs_t \<Rightarrow> venues \<Rightarrow> rpc
     \<Rightarrow> int \<Rightarrow> int \<Rightarrow> I9MMSwapParams
     \<Rightarrow> ITransactionResult \<times> NineMMService \<times> (Wallet \<times> swap_call) list" where
  "executeSwap parseFloat ws nm cfgs v ch now_quote now_submit params =
     (case map_of (ws_wallets ws) (np_chainId params) of
        None \<Rightarrow> (Inl ''No wallet connected for chain'', nm, [])
      | Some wallet \<Rightarrow>
         (case checkGasBalance ws ch (np_chainId params) (wl_address wallet) of
            Inl e \<Rightarrow> (Inl e, nm, [])
          | Inr _ \<Rightarrow>
             (case getBestQuote parseFloat cfgs v now_quote (aggregatorParams now_quote params) of
                Inl err \<Rightarrow> (Inl (''Failed to get quote: '' @ message err), nm, [])
              | Inr agg \<Rightarrow>
                 if dexProtocol (bestQuote agg) = NINE_MM then
                   confirmSwap ws ch (np_chainId params) agg
                     (nineMM_executeSwap nm ch now_submit params wallet)
                 else if np_chainId params \<in> {8453, 369, 146} then
                   confirmSwap ws ch (np_chainId params) agg
                     (nineMM_executeSwap nm ch now_submit params wallet)
                 else (Inl ''Swap execution not implemented'', nm, []))))"

text \<open>\<open>disconnectWallet(chainId?)\<close>: the test \<open>if (chainId)\<close> is false for a missing
  argument and for \<open>0\<close>.\<close>

definition disconnectWallet :: "WalletService \<Rightarrow> int option \<Rightarrow> WalletService" where
  "disconnectWallet ws cid =
     (case cid of
        Some c \<Rightarrow> if c \<noteq> 0 then ws\<lparr>ws_wallets := AList.delete c (ws_wallets ws)\<rparr>
                  else ws\<lparr>ws_wallets := []\<rparr>
      | None \<Rightarrow> ws\<lparr>ws_wallets := []\<rparr>)"

definition isConnected :: "WalletService \<Rightarrow> int \<Rightarrow> bool" where
  "isConnected ws cid = (map_of (ws_wallets ws) cid \<noteq> None)"

section \<open>User service (services/user-service.ts)\<close>

record IUser =
  u_id :: string
  u_sessionId :: string
  u_createdAt :: int
  u_lastActive :: int
  u_walletAddress :: string
  u_walletGenerated :: bool

record IUserWallet =
  uw_address :: string
  uw_privateKey :: string
  uw_mnemonic :: string
  uw_chainIds :: "int list"
  uw_createdAt :: int

record IUserSession =
  s_user :: IUser
  s_wallet :: IUserWallet
  s_token :: string

record UserService =
  users :: "(string \<times> IUser) list"
  userWallets :: "(string \<times> IUserWallet) list"
  sessionTokens :: "(string \<times> string) list"
  userSessions :: "(string \<times> string) list"

text \<open>What the random generator and the JWT library contribute: the fresh identifiers
  and wallet of one \<open>createUser\<close> call, and \<open>jwt.sign\<close> / \<open>jwt.verify\<close> under the
  configured secret (\<open>None\<close> where they throw).\<close>

record entropy =
  e_userId :: string
  e_sessionId :: string
  e_wallet :: random_wallet

record jwt =
  jwt_sign :: "string \<Rightarrow> int \<Rightarrow> string option"
  jwt_verify :: "string \<Rightarrow> string option"

definition createUser ::
  "UserService \<Rightarrow> WalletService \<Rightarrow> rpc \<Rightarrow> jwt \<Rightarrow> entropy \<Rightarrow> int \<Rightarrow> int list
     \<Rightarrow> (string + IUserSession) \<times> UserService \<times> WalletService" where
  "createUser us ws ch j e now cids =
     (case generateWallet ws ch (e_wallet e) cids of
        (Inl err, ws') \<Rightarrow> (Inl err, us, ws')
      | (Inr walletData, ws') \<Rightarrow>
         (let usr = \<lparr>u_id = e_userId e, u_sessionId = e_sessionId e, u_createdAt = now,
                      u_lastActive = now, u_walletAddress = gw_address walletData,
                      u_walletGenerated = True\<rparr>;
              userWallet = \<lparr>uw_address = gw_address walletData,
                             uw_privateKey = gw_privateKey walletData,
                             uw_mnemonic = gw_mnemonic walletData,
                             uw_chainIds = cids, uw_createdAt = now\<rparr>
          in case jwt_sign j (e_userId e) now of
               None \<Rightarrow> (Inl ''Token generation failed'', us, ws')
             | Some tok \<Rightarrow>
                 (Inr \<lparr>s_user = usr, s_wallet = userWallet, s_token = tok\<rparr>,
                  us\<lparr>users := AList.update (e_userId e) usr (users us),
                      userWallets := AList.update (e_userId e) userWallet (userWallets us),
                      sessionTokens := AList.update tok (e_userId e) (sessionTokens us),
                      userSessions := AList.update (e_sessionId e) (e_userId e) (userSessions us)\<rparr>,
                  ws')))"

text \<open>\<open>getUserByToken\<close>: \<open>if (!userId) return null\<close> also rejects the empty string.\<close>

definition getUserByToken :: "UserService \<Rightarrow> int \<Rightarrow> string \<Rightarrow> IUser option \<times> UserService" where
  "getUserByToken us now tok =
     (case map_of (sessionTokens us) tok of
        None \<Rightarrow> (None, us)
      | Some userId \<Rightarrow>
          if userId = [] then (None, us)
          else (case map_of (users us) userId of
                  Some usr \<Rightarrow>
                    (let usr' = usr\<lparr>u_lastActive := now\<rparr> in
                     (Some usr', us\<lparr>users := AList.update userId usr' (users us)\<rparr>))
                | None \<Rightarrow> (None, us)))"

definition getUserWallet :: "UserService \<Rightarrow> string \<Rightarrow> IUserWallet option" where
  "getUserWallet us userId = map_of (userWallets us) userId"

definition getUserSession :: "UserService \<Rightarrow> string \<Rightarrow> IUserSession option" where
  "getUserSession us tok =
     (case map_of (sessionTokens us) tok of
        None \<Rightarrow> None
      | Some userId \<Rightarrow>
          if userId = [] then None
          else (case (map_of (users us) userId, map_of (userWallets us) userId) of
                  (Some usr, Some wlt) \<Rightarrow> Some \<lparr>s_user = usr, s_wallet = wlt, s_token = tok\<rparr>
                | _ \<Rightarrow> None))"

definition validateToken :: "UserService \<Rightarrow> jwt \<Rightarrow> int \<Rightarrow> string \<Rightarrow> string option \<times> UserService" where
  "validateToken us j now tok =
     (case jwt_verify j tok of
        None \<Rightarrow> (None, us)
      | Some userId \<Rightarrow>
         (case map_of (users us) userId of
            Some usr \<Rightarrow> (Some userId,
                us\<lparr>users := AList.update userId (usr\<lparr>u_lastActive := now\<rparr>) (users us)\<rparr>)
          | None \<Rightarrow> (None, us)))"

definition revokeSession ::
  "UserService \<Rightarrow> WalletService \<Rightarrow> string \<Rightarrow> bool \<times> UserService \<times> WalletService" where
  "revokeSession us ws tok =
     (case map_of (sessionTokens us) tok of
        None \<Rightarrow> (False, us, ws)
      | Some userId \<Rightarrow>
          if userId = [] then (False, us, ws)
          else (case map_of (users us) userId of
                  Some usr \<Rightarrow>
                    (True,
                     us\<lparr>sessionTokens := AList.delete tok (sessionTokens us),
                         userSessions := AList.delete (u_sessionId usr) (userSessions us),
                         users := AList.delete userId (users us),
                         userWallets := AList.delete userId (userWallets us)\<rparr>,
                     disconnectWallet ws None)
                | None \<Rightarrow> (False, us, ws)))"

definition isSessionActive :: "int \<Rightarrow> IUser \<Rightarrow> bool" where
  "isSessionActive now usr = (now - u_lastActive usr < 24 * 60 * 60 * 1000)"


text \<open>One turn of the loop of \<open>cleanupExpiredSessions\<close> over the entries of \<open>users\<close>.
  Deleting the entry being visited does not disturb the iteration of a \<open>Map\<close>.\<close>

definition cleanupEntry :: "int \<Rightarrow> string \<times> IUser \<Rightarrow> UserService \<Rightarrow> UserService" where
  "cleanupEntry now entry us =
     (case entry of (userId, usr) \<Rightarrow>
        if \<not> isSessionActive now usr then
          us\<lparr>sessionTokens := filter (\<lambda>(tok, mappedUserId). mappedUserId \<noteq> userId) (sessionTokens us),
              userSessions := AList.delete (u_sessionId usr) (userSessions us),
              users := AList.delete userId (users us),
              userWallets := AList.delete userId (userWallets us)\<rparr>
        else us)"

definition cleanupExpiredSessions :: "UserService \<Rightarrow> int \<Rightarrow> UserService" where
  "cleanupExpiredSessions us now = fold (cleanupEntry now) (users us) us"

text \<open>The operations a client or the timer can run against the two singletons.\<close>

datatype operation =
    CreateUser entropy int "int list"
  | GetUserByToken int string
  | ValidateToken int string
  | RevokeSession string
  | CleanupExpiredSessions int

fun step :: "rpc \<Rightarrow> jwt \<Rightarrow> UserService \<times> WalletService \<Rightarrow> operation \<Rightarrow> UserService \<times> WalletService" where
  "step ch j (us, ws) (CreateUser e now cids) = snd (createUser us ws ch j e now cids)"
| "step ch j (us, ws) (GetUserByToken now tok) = (snd (getUserByToken us now tok), ws)"
| "step ch j (us, ws) (ValidateToken now tok) = (snd (validateToken us j now tok), ws)"
| "step ch j (us, ws) (RevokeSession tok) = snd (revokeSession us ws tok)"
| "step ch j (us, ws) (CleanupExpiredSessions now) = (cleanupExpiredSessions us now, ws)"

text \<open>Whether an operation hands out the token \<open>tok\<close>.\<close>

fun issues :: "jwt \<Rightarrow> string \<Rightarrow> operation \<Rightarrow> bool" where
  "issues j tok (CreateUser e now cids) = (jwt_sign j (e_userId e) now = Some tok)"
| "issues j tok _ = False"

section \<open>Vocabulary of the properties\<close>

text \<open>A quote of the list whose parsed \<open>toAmount\<close> no other quote of the list exceeds.\<close>

definition is_max_quote :: "(int \<Rightarrow> real) \<Rightarrow> ISwapQuote list \<Rightarrow> ISwapQuote \<Rightarrow> bool" where
  "is_max_quote parseFloat quotes q =
     (q \<in> set quotes \<and> (\<forall>q' \<in> set quotes. parseFloat (toAmount q') \<le> parseFloat (toAmount q)))"

text \<open>No adapter queried for the chain answers a quote.\<close>

definition allAdaptersFail :: "dexConfigs_t \<Rightarrow> venues \<Rightarrow> int \<Rightarrow> ISwapParams \<Rightarrow> bool" where
  "allAdaptersFail cfgs v now params =
     (\<forall>dex \<in> set (availableDEXs cfgs (p_chainId params)). isl (getQuoteFromDEX cfgs v now dex params))"

text \<open>A configuration in which three venues serve Base (8453): the initial one, with
  ParaSwap's chains extended through \<open>updateDEXConfig\<close>. The venues answer fixed amounts
  (\<open>None\<close>: the venue is down).\<close>

definition scenario_cfgs :: dexConfigs_t where
  "scenario_cfgs = updateDEXConfig initializeDEXConfigs PARASWAP
      (\<lambda>c. c\<lparr>c_supportedChains := [1, 56, 137, 42161, 10, 43114, 8453]\<rparr>)"

definition scenario_params :: ISwapParams where
  "scenario_params = \<lparr>p_fromToken = ''A'', p_toToken = ''B'', p_amount = 1000000000,
     p_slippage = 1 / 2, p_deadline = 0, p_chainId = 8453, p_dexProtocol = NINE_MM,
     p_userAddress = ''0x0''\<rparr>"

definition scenario_venues :: "int option \<Rightarrow> int option \<Rightarrow> int option \<Rightarrow> venues" where
  "scenario_venues one para nine = \<lparr>
     oneinch_api = (\<lambda>_. map_option (\<lambda>x. \<lparr>toTokenAmount = x, estimatedGas = 0\<rparr>) one),
     paraswap_api = (\<lambda>_. map_option (\<lambda>x. \<lparr>destAmount = x, gasCost = 0\<rparr>) para),
     ninemm_api = (\<lambda>_. map_option (\<lambda>x. \<lparr>buyAmount = Some x, nm_estimatedGas = None\<rparr>) nine)\<rparr>"

definition quote_1inch :: "int \<Rightarrow> ISwapQuote" where
  "quote_1inch x = \<lparr>dexProtocol = ONEINCH, fromAmount = 1000000000, toAmount = x,
     toAmountMin = x, slippage = 1 / 2, gasEstimate = 0, validUntil = 30000, chainId = 8453\<rparr>"

definition quote_paraswap :: "int \<Rightarrow> ISwapQuote" where
  "quote_paraswap x = \<lparr>dexProtocol = PARASWAP, fromAmount = 1000000000, toAmount = x,
     toAmountMin = x, slippage = 1 / 2, gasEstimate = 0, validUntil = 30000, chainId = 8453\<rparr>"

definition quote_9mm :: "int \<Rightarrow> ISwapQuote" where
  "quote_9mm x = \<lparr>dexProtocol = NINE_MM, fromAmount = 1000000000, toAmount = x,
     toAmountMin = nineMM_toAmountMin x (1 / 2), slippage = 1 / 2, gasEstimate = 300000,
     validUntil = 30000, chainId = 8453\<rparr>"

text \<open>The state of the 9MM service after its constructor, and a chain that answers every
  call: \<open>getAmountsOut\<close> with the output \<open>out\<close>, a gas estimate, a balance of one
  native unit, a transaction hash and a receipt.\<close>

definition nm_fresh :: NineMMService where
  "nm_fresh = \<lparr>nm_providers = SUPPORTED_9MM_CHAINS, nm_contracts = []\<rparr>"

definition chain_env :: "int \<Rightarrow> rpc" where
  "chain_env out = \<lparr>
     rpc_getAmountsOut = (\<lambda>cid amt path. Some [amt, out]),
     rpc_estimateGas = (\<lambda>cid call. Some 150000),
     rpc_send = (\<lambda>cid w call. Some ''0xabc''),
     rpc_getBalance = (\<lambda>cid addr. Some (10 ^ 18)),
     rpc_waitForTransaction = (\<lambda>cid hash. Some (Some \<lparr>rc_gasUsed = 120000, rc_blockNumber = 7\<rparr>))\<rparr>"

definition swap_params :: "real \<Rightarrow> I9MMSwapParams" where
  "swap_params slip = \<lparr>np_chainId = 8453, np_fromToken = ''A'', np_toToken = ''B'',
     np_amount = 1000000000, np_slippage = slip, np_userAddress = ''0xUser'',
     np_deadline = Some 1700000000\<rparr>"

text \<open>The minimum amount as the specification words it,
  \<open>floor(buyAmount * (1 - slippageFraction))\<close>; the \<open>slippage\<close> parameter of the code is
  a percentage (\<open>0.5\<close> is 0.5%), so the fraction is \<open>slippage / 100\<close>.\<close>

definition spec_minBuyAmount :: "int \<Rightarrow> real \<Rightarrow> int" where
  "spec_minBuyAmount buy slip = \<lfloor>real_of_int buy * (1 - slip / 100)\<rfloor>"

text \<open>A user's wallet connected on Base, and the 9MM service in the state in which
  \<open>NineMMService.addLiquidity\<close> leaves it after building the router of Base with that
  wallet as signer.\<close>

definition user_wallet :: Wallet where
  "user_wallet = \<lparr>wl_address = ''0xUser'', wl_privateKey = ''0xKey''\<rparr>"

definition ws_connected :: WalletService where
  "ws_connected = \<lparr>ws_wallets = [(8453, user_wallet)], ws_providers = SUPPORTED_9MM_CHAINS\<rparr>"

definition nm_signed :: NineMMService where
  "nm_signed = snd (getRouterContract nm_fresh 8453 (Some user_wallet))"

text \<open>A quote with its \<open>validUntil\<close> replaced.\<close>

definition set_vu :: "int \<Rightarrow> ISwapQuote \<Rightarrow> ISwapQuote" where
  "set_vu t q = q\<lparr>validUntil := t\<rparr>"

text \<open>What the executor reads from an aggregated result.\<close>

definition digest :: "IDEXAggregatorQuote IAPIResponse \<Rightarrow> api_error + DEXProtocol \<times> int \<times> savings_t" where
  "digest res = map_sum id (\<lambda>agg. (dexProtocol (bestQuote agg), toAmount (bestQuote agg), savings agg)) res"

text \<open>The outcome of quoting one chain for the comparison, the quotes of the chains that
  answer (in the order the chains are tried), and the case in which none does.\<close>

definition chainQuote ::
  "NineMMService \<Rightarrow> rpc \<Rightarrow> int \<Rightarrow> string \<Rightarrow> string \<Rightarrow> int \<Rightarrow> int \<Rightarrow> string + I9MMSwapQuote" where
  "chainQuote nm ch now fromTok toTok amt cid =
     fst (getSwapQuote nm ch now (compareParams cid fromTok toTok amt))"

definition survivingQuotes ::
  "NineMMService \<Rightarrow> rpc \<Rightarrow> int \<Rightarrow> string \<Rightarrow> string \<Rightarrow> int \<Rightarrow> I9MMSwapQuote list" where
  "survivingQuotes nm ch now fromTok toTok amt =
     List.map_filter (\<lambda>cid. case chainQuote nm ch now fromTok toTok amt cid of
                               Inl e \<Rightarrow> None | Inr q \<Rightarrow> Some q) [8453, 369, 146]"

definition everyChainFails ::
  "NineMMService \<Rightarrow> rpc \<Rightarrow> int \<Rightarrow> string \<Rightarrow> string \<Rightarrow> int \<Rightarrow> bool" where
  "everyChainFails nm ch now fromTok toTok amt =
     (\<forall>cid \<in> set [8453, 369, 146]. isl (chainQuote nm ch now fromTok toTok amt cid))"

definition sorted_desc :: "I9MMSwapQuote list \<Rightarrow> bool" where
  "sorted_desc qs = sorted_wrt (\<lambda>a b. nq_toAmount b \<le> nq_toAmount a) qs"

text \<open>Chains that answer nothing, and chains on which only one, or all but one, answer;
  the output offered depends on the chain.\<close>

definition chain_down :: rpc where
  "chain_down = \<lparr>
     rpc_getAmountsOut = (\<lambda>cid amt path. None),
     rpc_estimateGas = (\<lambda>cid call. None),
     rpc_send = (\<lambda>cid w call. None),
     rpc_getBalance = (\<lambda>cid addr. None),
     rpc_waitForTransaction = (\<lambda>cid hash. None)\<rparr>"

definition chain_mixed :: rpc where
  "chain_mixed = \<lparr>
     rpc_getAmountsOut = (\<lambda>cid amt path.
        if cid = 8453 then Some [amt, 100] else if cid = 146 then Some [amt, 300] else None),
     rpc_estimateGas = (\<lambda>cid call. Some 150000),
     rpc_send = (\<lambda>cid w call. None),
     rpc_getBalance = (\<lambda>cid addr. None),
     rpc_waitForTransaction = (\<lambda>cid hash. None)\<rparr>"

text \<open>Two users for the examples: a token signer that is injective in the user id, the
  fresh values of two \<open>createUser\<close> calls, the services as constructed, and the state
  after the first user has been created on Base at time 0.\<close>

definition jwt_stub :: jwt where
  "jwt_stub = \<lparr>jwt_sign = (\<lambda>userId now. Some (''jwt.'' @ userId)),
               jwt_verify = (\<lambda>tok. if take 4 tok = ''jwt.'' then Some (drop 4 tok) else None)\<rparr>"

definition alice :: entropy where
  "alice = \<lparr>e_userId = ''user_a'', e_sessionId = ''session_a'',
            e_wallet = \<lparr>rw_privateKey = ''0xKeyA'', rw_mnemonic = Some ''alpha beta'',
                         rw_address = ''0xA''\<rparr>\<rparr>"

definition bob :: entropy where
  "bob = \<lparr>e_userId = ''user_b'', e_sessionId = ''session_b'',
          e_wallet = \<lparr>rw_privateKey = ''0xKeyB'', rw_mnemonic = Some ''gamma delta'',
                       rw_address = ''0xB''\<rparr>\<rparr>"

definition us_empty :: UserService where
  "us_empty = \<lparr>users = [], userWallets = [], sessionTokens = [], userSessions = []\<rparr>"

definition ws_empty :: WalletService where
  "ws_empty = \<lparr>ws_wallets = [], ws_providers = SUPPORTED_9MM_CHAINS\<rparr>"

definition alice_user :: IUser where
  "alice_user = \<lparr>u_id = ''user_a'', u_sessionId = ''session_a'', u_createdAt = 0,
                 u_lastActive = 0, u_walletAddress = ''0xA'', u_walletGenerated = True\<rparr>"

definition alice_wallet :: IUserWallet where
  "alice_wallet = \<lparr>uw_address = ''0xA'', uw_privateKey = ''0xKeyA'', uw_mnemonic = ''alpha beta'',
                   uw_chainIds = [8453], uw_createdAt = 0\<rparr>"

definition us_alice :: UserService where
  "us_alice = fst (snd (createUser us_empty ws_empty (chain_env 0) jwt_stub alice 0 [8453]))"

definition ws_alice :: WalletService where
  "ws_alice = snd (snd (createUser us_empty ws_empty (chain_env 0) jwt_stub alice 0 [8453]))"

text \<open>The state after the second user has been created too, at time 10.\<close>

definition us_both :: UserService where
  "us_both = fst (snd (createUser us_alice ws_alice (chain_env 0) jwt_stub bob 10 [8453]))"

definition ws_both :: WalletService where
  "ws_both = snd (snd (createUser us_alice ws_alice (chain_env 0) jwt_stub bob 10 [8453]))"

definition bob_user :: IUser where
  "bob_user = \<lparr>u_id = ''user_b'', u_sessionId = ''session_b'', u_createdAt = 10,
               u_lastActive = 10, u_walletAddress = ''0xB'', u_walletGenerated = True\<rparr>"

definition bob_wallet :: IUserWallet where
  "bob_wallet = \<lparr>uw_address = ''0xB'', uw_privateKey = ''0xKeyB'', uw_mnemonic = ''gamma delta'',
                 uw_chainIds = [8453], uw_createdAt = 10\<rparr>"

section \<open>Rounding to a double\<close>

lemma round_half_even_ge: "of_int n \<le> y \<Longrightarrow> n \<le> round_half_even y"
proof -
  assume "of_int n \<le> y"
  then have "n \<le> \<lfloor>y\<rfloor>" by (simp add: le_floor_iff)
  moreover have "\<lfloor>y\<rfloor> \<le> round_half_even y" by (simp add: round_half_even_def Let_def)
  ultimately show ?thesis by simp
qed

lemma round_half_even_le: "y \<le> of_int n \<Longrightarrow> round_half_even y \<le> n"
proof (cases "y = of_int \<lfloor>y\<rfloor>")
  case True
  assume "y \<le> of_int n"
  with True have "\<lfloor>y\<rfloor> \<le> n" by linarith
  moreover from True have "round_half_even y = \<lfloor>y\<rfloor>" by (simp add: round_half_even_def Let_def)
  ultimately show ?thesis by simp
next
  case False
  assume "y \<le> of_int n"
  with False have "\<lfloor>y\<rfloor> < n" by (metis floor_less_iff less_eq_real_def of_int_floor_cancel floor_of_int) 
  moreover have "round_half_even y \<le> \<lfloor>y\<rfloor> + 1" by (simp add: round_half_even_def Let_def)
  ultimately show ?thesis by simp
qed

lemma binade:
  assumes "0 < (x::real)"
  shows "2 powi \<lfloor>log 2 x\<rfloor> \<le> x \<and> x < 2 powi (\<lfloor>log 2 x\<rfloor> + 1)"
proof -
  let ?k = "\<lfloor>log 2 x\<rfloor>"
  from assms have "2 powr real_of_int ?k \<le> x \<and> x < 2 powr (real_of_int ?k + 1)"
    using floor_log_eq_powr_iff [of x 2 ?k] by simp
  moreover have "real_of_int ?k + 1 = real_of_int (?k + 1)" by simp
  ultimately have "2 powr real_of_int ?k \<le> x \<and> x < 2 powr real_of_int (?k + 1)" by metis
  moreover have "(2::real) powr real_of_int ?k = 2 powi ?k" by (rule powr_real_of_int') simp_all
  moreover have "(2::real) powr real_of_int (?k + 1) = 2 powi (?k + 1)" by (rule powr_real_of_int') simp_all
  ultimately show ?thesis by metis
qed

lemma powi2_less_cancel: "(2::real) powi m < 2 powi n \<Longrightarrow> m < n"
  by (rule ccontr) (simp add: not_less power_int_increasing not_le [symmetric])

lemma roundDouble_formula:
  assumes "0 < x"
  shows "roundDouble x =
     of_int (round_half_even (x / 2 powi (\<lfloor>log 2 x\<rfloor> - 52))) * 2 powi (\<lfloor>log 2 x\<rfloor> - 52)"
  using assms by (simp add: roundDouble_def Let_def)


lemma powi2_split: "(2::real) powi e = 2 ^ 52 * 2 powi (e - 52)"
  using power_int_add [of "2::real" 52 "e - 52"] by simp

lemma powi2_nonneg: "0 \<le> d \<Longrightarrow> (2::real) powi d = of_int (2 ^ nat d)"
  by (simp add: power_int_def)

text \<open>A positive number with at most 53 significant bits is a whole number of units in
  its own binade and in every lower one.\<close>

lemma units_of_representable:
  assumes "0 < k" "k < 2 ^ 53" "a = of_int k * 2 powi j" "(2::real) powi e \<le> a"
  shows "\<exists>N. a = of_int N * 2 powi (e - 52)"
proof -
  have "(2::real) powi e \<le> of_int k * 2 powi j" using assms by simp
  also have "\<dots> < 2 ^ 53 * 2 powi j"
    using assms(2) by (simp add: of_int_less_numeral_power_cancel_iff)
  also have "\<dots> = 2 powi (j + 53)" using power_int_add [of "2::real" j 53] by simp
  finally have "e < j + 53" by (rule powi2_less_cancel)
  then have d: "0 \<le> j - (e - 52)" by simp
  have "(2::real) powi j = 2 powi (j - (e - 52)) * 2 powi (e - 52)"
    using power_int_add [of "2::real" "j - (e - 52)" "e - 52"] by simp
  also have "(2::real) powi (j - (e - 52)) = of_int (2 ^ nat (j - (e - 52)))"
    using d by (rule powi2_nonneg)
  finally have "a = of_int (k * 2 ^ nat (j - (e - 52))) * 2 powi (e - 52)"
    using assms(3) by simp
  then show ?thesis by blast
qed

lemma roundDouble_lower:
  assumes k: "0 < k" "k < 2 ^ 53" and a: "a = of_int k * 2 powi j" and le: "a \<le> x"
  shows "a \<le> roundDouble x"
proof -
  have a0: "0 < a" using k a by simp
  with le have x0: "0 < x" by simp
  let ?e = "\<lfloor>log 2 x\<rfloor>"
  let ?u = "(2::real) powi (?e - 52)"
  have u0: "0 < ?u" by simp
  from binade [OF x0] have lo: "2 powi ?e \<le> x" by simp
  have rd: "roundDouble x = of_int (round_half_even (x / ?u)) * ?u"
    using x0 by (rule roundDouble_formula)
  show ?thesis
  proof (cases "2 powi ?e \<le> a")
    case True
    from units_of_representable [OF k a True] obtain N where N: "a = of_int N * ?u" by blast
    with le u0 have "of_int N \<le> x / ?u" by (simp add: le_divide_eq)
    then have "N \<le> round_half_even (x / ?u)" by (rule round_half_even_ge)
    then have "of_int N * ?u \<le> of_int (round_half_even (x / ?u)) * ?u"
      using u0 by (simp add: mult_right_mono)
    with N rd show ?thesis by simp
  next
    case False
    from lo have "2 ^ 52 * ?u \<le> x" using powi2_split [of ?e] by simp
    with u0 have "of_int (2 ^ 52) \<le> x / ?u" by (simp add: le_divide_eq)
    then have "2 ^ 52 \<le> round_half_even (x / ?u)" by (rule round_half_even_ge)
    then have "of_int (2 ^ 52) * ?u \<le> of_int (round_half_even (x / ?u)) * ?u"
      using u0 by (intro mult_right_mono) simp_all
    then have "2 powi ?e \<le> roundDouble x" using rd powi2_split [of ?e] by simp
    with False show ?thesis by simp
  qed
qed

lemma roundDouble_upper:
  assumes k: "0 < k" "k < 2 ^ 53" and a: "a = of_int k * 2 powi j" and x0: "0 < x" and le: "x \<le> a"
  shows "roundDouble x \<le> a"
proof -
  let ?e = "\<lfloor>log 2 x\<rfloor>"
  let ?u = "(2::real) powi (?e - 52)"
  have u0: "0 < ?u" by simp
  from binade [OF x0] have lo: "2 powi ?e \<le> x" and hi: "x < 2 powi (?e + 1)" by simp_all
  have rd: "roundDouble x = of_int (round_half_even (x / ?u)) * ?u"
    using x0 by (rule roundDouble_formula)
  from lo le have "2 powi ?e \<le> a" by simp
  from units_of_representable [OF k a this] obtain N where N: "a = of_int N * ?u" by blast
  with le u0 have "x / ?u \<le> of_int N" by (simp add: divide_le_eq)
  then have "round_half_even (x / ?u) \<le> N" by (rule round_half_even_le)
  then have "of_int (round_half_even (x / ?u)) * ?u \<le> of_int N * ?u"
    using u0 by (simp add: mult_right_mono)
  with N rd show ?thesis by simp
qed

lemma roundDouble_exact:
  assumes "0 < k" "k < 2 ^ 53" "a = of_int k * 2 powi j"
  shows "roundDouble a = a"
proof -
  have "0 < a" using assms by simp
  with roundDouble_upper [OF assms, of a] roundDouble_lower [OF assms, of a] show ?thesis by simp
qed

lemma roundDouble_nonneg: "0 \<le> x \<Longrightarrow> 0 \<le> roundDouble x"
  by (simp add: roundDouble_def Let_def round_half_even_ge)

lemma roundDouble_int:
  assumes "0 \<le> n" "n < 2 ^ 53"
  shows "roundDouble (of_int n) = of_int n"
proof (cases "n = 0")
  case True
  then show ?thesis by (simp add: roundDouble_def)
next
  case False
  with assms have "0 < n" by simp
  then show ?thesis using assms(2) by (rule roundDouble_exact [where j = 0]) simp
qed

text \<open>The value at a number whose binade is known.\<close>

lemma roundDouble_binade:
  assumes "0 < x" "2 powi e \<le> x" "x < 2 powi (e + 1)"
  shows "roundDouble x = of_int (round_half_even (x / 2 powi (e - 52))) * 2 powi (e - 52)"
proof -
  have "(2::real) powr real_of_int e = 2 powi e" by (rule powr_real_of_int') simp_all
  moreover have "(2::real) powr (real_of_int e + 1) = 2 powi (e + 1)"
    using powr_real_of_int' [of "2::real" "e + 1"] by simp
  ultimately have "\<lfloor>log 2 x\<rfloor> = e"
    using assms floor_log_eq_powr_iff [of x 2 e] by simp
  with roundDouble_formula [OF assms(1)] show ?thesis by simp
qed

lemma floor_roundDouble_int:
  assumes "0 \<le> n" "n < 2 ^ 53" "x = of_int n"
  shows "\<lfloor>roundDouble x\<rfloor> = n"
  using roundDouble_int [OF assms(1,2)] assms(3) by simp


text \<open>The default slippage of 0.5 percent is 50 basis points.\<close>

lemma bps_at_half: "\<lfloor>roundDouble 50\<rfloor> = 50"
  using floor_roundDouble_int [of 50 50] by simp

text \<open>An integer with at most 53 significant bits is parsed exactly.\<close>

lemma parseFloat_js_scaled:
  assumes "0 < k" "k < 2 ^ 53"
  shows "parseFloat_js (k * 2 ^ m) = of_int (k * 2 ^ m)"
proof -
  have "real_of_int (k * 2 ^ m) = of_int k * 2 powi (int m)" by simp
  with roundDouble_exact [OF assms, of "of_int (k * 2 ^ m)" "int m"] show ?thesis
    by (simp add: parseFloat_js_def)
qed

text \<open>A number closer than half a unit to a double with a full significand rounds to
  that double.\<close>

lemma round_half_even_near:
  assumes "\<bar>y - of_int n\<bar> < 1 / 2"
  shows "round_half_even y = n"
proof (cases "of_int n \<le> y")
  case True
  with assms have f: "\<lfloor>y\<rfloor> = n" by (intro floor_unique) linarith+
  from True assms show ?thesis by (simp add: round_half_even_def Let_def f)
next
  case False
  with assms have "of_int (n - 1) \<le> y" "y < of_int (n - 1) + 1" by simp_all
  then have f: "\<lfloor>y\<rfloor> = n - 1" by (rule floor_unique)
  from False assms have "1 / 2 < y - of_int (n - 1)" by simp
  then show ?thesis unfolding round_half_even_def Let_def f by simp
qed






lemma pf_1990: "parseFloat_js 1990000000000000000000 = 1990000000000000000000"
  using parseFloat_js_scaled [of 3795623779296875 19] by simp




section \<open>The aggregator selects from the surviving quotes\<close>

lemma foldl_pick_mem: "(\<And>a b. f a b = a \<or> f a b = b) \<Longrightarrow> foldl f x xs \<in> set (x # xs)"
proof (induction xs arbitrary: x)
  case Nil
  then show ?case by simp
next
  case (Cons y ys)
  have "f x y = x \<or> f x y = y" by (rule Cons.prems)
  moreover have "foldl f (f x y) ys \<in> set (f x y # ys)"
    by (rule Cons.IH) (rule Cons.prems)
  ultimately show ?case by auto
qed

lemma foldl_max_ge:
  fixes k :: "'a \<Rightarrow> real"
  shows "k x \<le> k (foldl (\<lambda>best current. if k current > k best then current else best) x xs) \<and>
   (\<forall>q\<in>set xs. k q \<le> k (foldl (\<lambda>best current. if k current > k best then current else best) x xs))"
proof (induction xs arbitrary: x)
  case Nil
  then show ?case by simp
next
  case (Cons y ys)
  let ?f = "\<lambda>best current. if k current > k best then current else best"
  from Cons.IH [of "?f x y"] show ?case
    by (auto split: if_splits)
qed

lemma find_mem: "find P xs = Some x \<Longrightarrow> x \<in> set xs \<and> P x"
  by (induction xs) (auto split: if_splits)

lemma reduce_max:
  assumes "reduce (\<lambda>best current. if pf (toAmount current) > pf (toAmount best) then current else best) quotes = Some b"
  shows "is_max_quote pf quotes b"
proof (cases quotes)
  case Nil
  with assms show ?thesis by simp
next
  case (Cons x xs)
  let ?f = "\<lambda>best current. if pf (toAmount current) > pf (toAmount best) then current else best"
  from assms Cons have b: "b = foldl ?f x xs" by simp
  have "foldl ?f x xs \<in> set (x # xs)" by (rule foldl_pick_mem) simp
  moreover from foldl_max_ge [of "\<lambda>q. pf (toAmount q)" x xs]
  have "\<forall>q\<in>set (x # xs). pf (toAmount q) \<le> pf (toAmount (foldl ?f x xs))" by simp
  ultimately show ?thesis unfolding is_max_quote_def b Cons by blast
qed

text \<open>What a successful selection is made of: the strict maximum \<open>b\<close>, replaced by the
  first 9MM quote only on a 9MM chain and only within the tolerance.\<close>

lemma selectBest_cases:
  assumes "selectBest pf nc quotes = Inr r"
  obtains b where "is_max_quote pf quotes b" and "allQuotes r = quotes"
    and "recommendedDEX r = dexProtocol (bestQuote r)"
    and "bestQuote r = b \<or> (nc \<and> find (\<lambda>q. dexProtocol q = NINE_MM) quotes = Some (bestQuote r)
          \<and> within_tolerance (pf (toAmount b)) (pf (toAmount (bestQuote r))))"
proof -
  let ?f = "\<lambda>best current. if pf (toAmount current) > pf (toAmount best) then current else best"
  from assms obtain b where b: "reduce ?f quotes = Some b"
    by (cases "reduce ?f quotes") (auto simp: selectBest_def)
  have m: "is_max_quote pf quotes b" using b by (rule reduce_max)
  from assms b have "allQuotes r = quotes" "recommendedDEX r = dexProtocol (bestQuote r)"
    by (auto simp: selectBest_def Let_def)
  moreover from assms b
  have "bestQuote r = b \<or> (nc \<and> find (\<lambda>q. dexProtocol q = NINE_MM) quotes = Some (bestQuote r)
          \<and> within_tolerance (pf (toAmount b)) (pf (toAmount (bestQuote r))))"
    by (auto simp: selectBest_def Let_def split: option.splits if_splits)
  ultimately show ?thesis using m that by blast
qed

lemma getBestQuote_member_dex:
  assumes "getBestQuote parseFloat cfgs v now params = Inr r"
  shows "allQuotes r = validQuotes cfgs v now params \<and> bestQuote r \<in> set (allQuotes r) \<and>
     recommendedDEX r = dexProtocol (bestQuote r)"
proof -
  from assms
  have s: "selectBest parseFloat (is9MMChain (p_chainId params)) (validQuotes cfgs v now params) = Inr r"
    by (simp add: getBestQuote_def)
  from s show ?thesis
  proof (rule selectBest_cases)
    fix b
    assume m: "is_max_quote parseFloat (validQuotes cfgs v now params) b"
      and a: "allQuotes r = validQuotes cfgs v now params"
      and d: "recommendedDEX r = dexProtocol (bestQuote r)"
      and c: "bestQuote r = b \<or> (is9MMChain (p_chainId params) \<and>
          find (\<lambda>q. dexProtocol q = NINE_MM) (validQuotes cfgs v now params) = Some (bestQuote r) \<and>
          within_tolerance (parseFloat (toAmount b)) (parseFloat (toAmount (bestQuote r))))"
    from c have "bestQuote r \<in> set (validQuotes cfgs v now params)"
    proof
      assume "bestQuote r = b"
      with m show ?thesis by (simp add: is_max_quote_def)
    next
      assume "is9MMChain (p_chainId params) \<and>
          find (\<lambda>q. dexProtocol q = NINE_MM) (validQuotes cfgs v now params) = Some (bestQuote r) \<and>
          within_tolerance (parseFloat (toAmount b)) (parseFloat (toAmount (bestQuote r)))"
      then show ?thesis using find_mem by fast
    qed
    with a d show ?thesis by simp
  qed
qed



subsection \<open>The scenario configuration, evaluated\<close>

lemma scenario_cfgs_eq:
  "scenario_cfgs =
     [(ONEINCH, \<lparr>c_protocol = ONEINCH, c_name = ''1inch'',
          c_supportedChains = [1, 56, 137, 42161, 10, 8453], c_isActive = True\<rparr>),
      (PARASWAP, \<lparr>c_protocol = PARASWAP, c_name = ''ParaSwap'',
          c_supportedChains = [1, 56, 137, 42161, 10, 43114, 8453], c_isActive = True\<rparr>),
      (UNISWAP_V3, \<lparr>c_protocol = UNISWAP_V3, c_name = ''Uniswap V3'',
          c_supportedChains = [1, 137, 42161, 10, 8453], c_isActive = True\<rparr>),
      (SUSHISWAP, \<lparr>c_protocol = SUSHISWAP, c_name = ''SushiSwap'',
          c_supportedChains = [1, 56, 137, 42161, 10], c_isActive = True\<rparr>),
      (PANCAKESWAP, \<lparr>c_protocol = PANCAKESWAP, c_name = ''PancakeSwap'',
          c_supportedChains = [56], c_isActive = True\<rparr>),
      (NINE_MM, \<lparr>c_protocol = NINE_MM, c_name = ''9MM DEX Aggregator'',
          c_supportedChains = [8453, 369, 146], c_isActive = True\<rparr>)]"
  by (simp add: scenario_cfgs_def updateDEXConfig_def initializeDEXConfigs_def)

lemma scenario_available:
  "availableDEXs scenario_cfgs (p_chainId scenario_params) = [NINE_MM, ONEINCH, PARASWAP, UNISWAP_V3]"
  by (simp add: scenario_cfgs_eq scenario_params_def availableDEXs_def
      getAvailableDEXsForChain_def is9MMChain_def)

lemma scenario_adapters:
  "getQuoteFromDEX scenario_cfgs (scenario_venues one para nine) 0 NINE_MM scenario_params =
     (case nine of Some x \<Rightarrow> Inr (quote_9mm x)
                 | None \<Rightarrow> Inl \<lparr>code = ''DEX_QUOTE_ERROR'', message = ''9MM request failed''\<rparr>)"
  "getQuoteFromDEX scenario_cfgs (scenario_venues one para nine) 0 ONEINCH scenario_params =
     (case one of Some x \<Rightarrow> Inr (quote_1inch x)
                | None \<Rightarrow> Inl \<lparr>code = ''DEX_QUOTE_ERROR'', message = ''1inch request failed''\<rparr>)"
  "getQuoteFromDEX scenario_cfgs (scenario_venues one para nine) 0 PARASWAP scenario_params =
     (case para of Some x \<Rightarrow> Inr (quote_paraswap x)
                 | None \<Rightarrow> Inl \<lparr>code = ''DEX_QUOTE_ERROR'', message = ''ParaSwap request failed''\<rparr>)"
  "getQuoteFromDEX scenario_cfgs (scenario_venues one para nine) 0 UNISWAP_V3 scenario_params =
     Inl \<lparr>code = ''DEX_QUOTE_ERROR'',
          message = ''Uniswap quote integration not yet implemented - use SDK''\<rparr>"
  by (simp_all add: scenario_cfgs_eq getQuoteFromDEX_def quoteByProtocol_def get9MMQuote_def
      get1inchQuote_def getParaswapQuote_def getUniswapQuote_def scenario_venues_def
      scenario_params_def quote_9mm_def quote_1inch_def quote_paraswap_def
      split: option.splits)

lemma scenario_validQuotes:
  "validQuotes scenario_cfgs (scenario_venues one para nine) 0 scenario_params =
     (case nine of Some x \<Rightarrow> [quote_9mm x] | None \<Rightarrow> []) @
     (case one of Some x \<Rightarrow> [quote_1inch x] | None \<Rightarrow> []) @
     (case para of Some x \<Rightarrow> [quote_paraswap x] | None \<Rightarrow> [])"
  unfolding validQuotes_def scenario_available
  by (simp add: List.map_filter_def scenario_adapters split: option.splits)

lemma scenario_bestQuote_preferred:
  "map_sum id bestQuote
     (getBestQuote real_of_int scenario_cfgs
        (scenario_venues (Some (2000 * 10 ^ 18)) (Some (1950 * 10 ^ 18)) (Some (1990 * 10 ^ 18)))
        0 scenario_params) = Inr (quote_9mm (1990 * 10 ^ 18))"
  unfolding getBestQuote_def scenario_validQuotes
  by (simp add: scenario_params_def is9MMChain_def selectBest_def within_tolerance_def Let_def
      quote_9mm_def quote_1inch_def quote_paraswap_def)




text \<open>The configuration the service starts with, on Ethereum (chain 1) and on Base.\<close>

lemma initial_available: "availableDEXs initializeDEXConfigs 8453 = [NINE_MM, ONEINCH, UNISWAP_V3]"
  by (simp add: initializeDEXConfigs_def availableDEXs_def getAvailableDEXsForChain_def is9MMChain_def)

lemma initial_map_of:
  "map_of initializeDEXConfigs NINE_MM = Some \<lparr>c_protocol = NINE_MM, c_name = ''9MM DEX Aggregator'',
          c_supportedChains = [8453, 369, 146], c_isActive = True\<rparr>"
  "map_of initializeDEXConfigs ONEINCH = Some \<lparr>c_protocol = ONEINCH, c_name = ''1inch'',
          c_supportedChains = [1, 56, 137, 42161, 10, 8453], c_isActive = True\<rparr>"
  "map_of initializeDEXConfigs UNISWAP_V3 = Some \<lparr>c_protocol = UNISWAP_V3, c_name = ''Uniswap V3'',
          c_supportedChains = [1, 137, 42161, 10, 8453], c_isActive = True\<rparr>"
  by (simp_all add: initializeDEXConfigs_def)












text \<open>
  Claim C2. In every successful result of \<open>getBestQuote\<close>, \<open>bestQuote\<close> is an element of
  \<open>allQuotes\<close>, which is the list of surviving quotes, and \<open>recommendedDEX\<close> is the
  venue of \<open>bestQuote\<close>; the statement covers the strict maximum and the substituted
  9MM quote alike.
\<close>

theorem C2_best_in_allQuotes:
  assumes "getBestQuote parseFloat cfgs v now params = Inr r"
  shows "bestQuote r \<in> set (allQuotes r) \<and> recommendedDEX r = dexProtocol (bestQuote r) \<and>
     allQuotes r = validQuotes cfgs v now params"
  using getBestQuote_member_dex [OF assms] by blast

theorem C2_witness:
  "\<exists>r. getBestQuote real_of_int scenario_cfgs
          (scenario_venues (Some (2000 * 10 ^ 18)) (Some (1950 * 10 ^ 18)) (Some (1990 * 10 ^ 18)))
          0 scenario_params = Inr r \<and>
       bestQuote r = quote_9mm (1990 * 10 ^ 18) \<and>
       bestQuote r \<in> set (allQuotes r) \<and> recommendedDEX r = NINE_MM \<and>
       allQuotes r = [quote_9mm (1990 * 10 ^ 18), quote_1inch (2000 * 10 ^ 18),
                      quote_paraswap (1950 * 10 ^ 18)]"
proof -
  let ?v = "scenario_venues (Some (2000 * 10 ^ 18)) (Some (1950 * 10 ^ 18)) (Some (1990 * 10 ^ 18))"
  from scenario_bestQuote_preferred
  obtain r where r: "getBestQuote real_of_int scenario_cfgs ?v 0 scenario_params = Inr r"
    and b: "bestQuote r = quote_9mm (1990 * 10 ^ 18)"
    by (cases "getBestQuote real_of_int scenario_cfgs ?v 0 scenario_params") auto
  from C2_best_in_allQuotes [OF r] b r show ?thesis
    by (simp add: scenario_validQuotes quote_9mm_def)
qed

section \<open>The aggregator fails exactly when no adapter answers\<close>

lemma set_validQuotes:
  "set (validQuotes cfgs v now params) =
     {q. \<exists>dex \<in> set (availableDEXs cfgs (p_chainId params)).
           getQuoteFromDEX cfgs v now dex params = Inr q}"
  by (auto simp: validQuotes_def List.map_filter_def image_iff split: sum.splits) force

lemma validQuotes_Nil:
  "validQuotes cfgs v now params = [] \<longleftrightarrow> allAdaptersFail cfgs v now params"
proof -
  have "validQuotes cfgs v now params = [] \<longleftrightarrow> set (validQuotes cfgs v now params) = {}" by simp
  also have "\<dots> \<longleftrightarrow> allAdaptersFail cfgs v now params"
    unfolding set_validQuotes allAdaptersFail_def
    by (auto simp: isl_def) (metis sum.collapse(2) isl_def)
  finally show ?thesis .
qed

lemma selectBest_Nil:
  "selectBest pf nc [] =
     Inl \<lparr>code = ''AGGREGATOR_ERROR'', message = ''No valid quotes found from any DEX''\<rparr>"
  by (simp add: selectBest_def)

lemma selectBest_Cons: "\<exists>r. selectBest pf nc (q # qs) = Inr r"
  by (simp add: selectBest_def Let_def)

text \<open>
  Claim C4. \<open>getBestQuote\<close> fails if and only if no adapter succeeds. When every adapter
  queried for the chain fails, the result is the failure "No valid quotes found from any
  DEX" (no quote is returned); when at least one succeeds, the result is a success whose
  \<open>allQuotes\<close> are exactly the quotes of the adapters that succeeded, \<open>bestQuote\<close> among
  them.
\<close>

theorem C4_fails_iff_no_adapter_succeeds:
  "(isl (getBestQuote parseFloat cfgs v now params) \<longleftrightarrow> allAdaptersFail cfgs v now params) \<and>
   (allAdaptersFail cfgs v now params \<longrightarrow>
      getBestQuote parseFloat cfgs v now params =
        Inl \<lparr>code = ''AGGREGATOR_ERROR'', message = ''No valid quotes found from any DEX''\<rparr>) \<and>
   (\<not> allAdaptersFail cfgs v now params \<longrightarrow>
      (\<exists>r. getBestQuote parseFloat cfgs v now params = Inr r \<and>
           set (allQuotes r) = {q. \<exists>dex \<in> set (availableDEXs cfgs (p_chainId params)).
                                   getQuoteFromDEX cfgs v now dex params = Inr q} \<and>
           bestQuote r \<in> set (allQuotes r)))"
proof -
  have fail: "getBestQuote parseFloat cfgs v now params =
        Inl \<lparr>code = ''AGGREGATOR_ERROR'', message = ''No valid quotes found from any DEX''\<rparr>"
    if "allAdaptersFail cfgs v now params"
  proof -
    from that have "validQuotes cfgs v now params = []" by (simp add: validQuotes_Nil)
    then show ?thesis by (simp add: getBestQuote_def selectBest_Nil)
  qed
  have ok: "\<exists>r. getBestQuote parseFloat cfgs v now params = Inr r \<and>
           set (allQuotes r) = {q. \<exists>dex \<in> set (availableDEXs cfgs (p_chainId params)).
                                   getQuoteFromDEX cfgs v now dex params = Inr q} \<and>
           bestQuote r \<in> set (allQuotes r)"
    if "\<not> allAdaptersFail cfgs v now params"
  proof -
    from that have "validQuotes cfgs v now params \<noteq> []" by (simp add: validQuotes_Nil)
    then obtain q qs where "validQuotes cfgs v now params = q # qs"
      by (cases "validQuotes cfgs v now params") auto
    then obtain r where r: "getBestQuote parseFloat cfgs v now params = Inr r"
      using selectBest_Cons [of parseFloat "is9MMChain (p_chainId params)" q qs]
      by (auto simp: getBestQuote_def)
    from r have "allQuotes r = validQuotes cfgs v now params \<and> bestQuote r \<in> set (allQuotes r)"
      using getBestQuote_member_dex by blast
    with set_validQuotes [of cfgs v now params] r show ?thesis by metis
  qed
  have "isl (getBestQuote parseFloat cfgs v now params) \<longleftrightarrow> allAdaptersFail cfgs v now params"
  proof (cases "allAdaptersFail cfgs v now params")
    case True
    with fail show ?thesis by simp
  next
    case False
    with ok obtain r where "getBestQuote parseFloat cfgs v now params = Inr r" by blast
    with False show ?thesis by simp
  qed
  with fail ok show ?thesis by blast
qed

theorem C4_witness:
  "allAdaptersFail scenario_cfgs (scenario_venues None None None) 0 scenario_params \<and>
   getBestQuote real_of_int scenario_cfgs (scenario_venues None None None) 0 scenario_params =
     Inl \<lparr>code = ''AGGREGATOR_ERROR'', message = ''No valid quotes found from any DEX''\<rparr> \<and>
   \<not> allAdaptersFail scenario_cfgs
       (scenario_venues (Some (2000 * 10 ^ 18)) None (Some (1975 * 10 ^ 18))) 0 scenario_params \<and>
   (\<exists>r. getBestQuote real_of_int scenario_cfgs
          (scenario_venues (Some (2000 * 10 ^ 18)) None (Some (1975 * 10 ^ 18))) 0 scenario_params = Inr r \<and>
        set (allQuotes r) = {quote_9mm (1975 * 10 ^ 18), quote_1inch (2000 * 10 ^ 18)} \<and>
        bestQuote r \<in> set (allQuotes r))"
proof -
  let ?down = "scenario_venues None None None"
  let ?part = "scenario_venues (Some (2000 * 10 ^ 18)) None (Some (1975 * 10 ^ 18))"
  have d: "allAdaptersFail scenario_cfgs ?down 0 scenario_params"
    unfolding allAdaptersFail_def scenario_available by (simp add: scenario_adapters)
  have p: "\<not> allAdaptersFail scenario_cfgs ?part 0 scenario_params"
    unfolding allAdaptersFail_def scenario_available by (simp add: scenario_adapters)
  have s: "{q. \<exists>dex \<in> set (availableDEXs scenario_cfgs (p_chainId scenario_params)).
               getQuoteFromDEX scenario_cfgs ?part 0 dex scenario_params = Inr q} =
           {quote_9mm (1975 * 10 ^ 18), quote_1inch (2000 * 10 ^ 18)}"
    unfolding scenario_available by (auto simp: scenario_adapters)
  from C4_fails_iff_no_adapter_succeeds [of real_of_int scenario_cfgs ?down 0 scenario_params] d
  have "getBestQuote real_of_int scenario_cfgs ?down 0 scenario_params =
     Inl \<lparr>code = ''AGGREGATOR_ERROR'', message = ''No valid quotes found from any DEX''\<rparr>"
    by blast
  moreover
  from C4_fails_iff_no_adapter_succeeds [of real_of_int scenario_cfgs ?part 0 scenario_params] p
  have "\<exists>r. getBestQuote real_of_int scenario_cfgs ?part 0 scenario_params = Inr r \<and>
        set (allQuotes r) = {quote_9mm (1975 * 10 ^ 18), quote_1inch (2000 * 10 ^ 18)} \<and>
        bestQuote r \<in> set (allQuotes r)"
    unfolding s by blast
  ultimately show ?thesis using d p by blast
qed

section \<open>Minimum amounts under slippage\<close>

lemma sdiv_nonneg: "0 \<le> a \<Longrightarrow> 0 < b \<Longrightarrow> a sdiv b = a div (b::int)"
  by (simp add: signed_divide_int_def sgn_if)

lemma div_10000_floor: "a div 10000 = \<lfloor>real_of_int a / 10000\<rfloor>"
  using floor_divide_of_int_eq [of a 10000, where ?'a = real] by simp

lemma scaled_le:
  assumes "0 \<le> (buy::int)" "0 \<le> m" "m \<le> 10000"
  shows "(buy * m) div 10000 \<le> buy"
proof -
  from assms have "buy * m \<le> buy * 10000" by (simp add: mult_left_mono)
  then have "(buy * m) div 10000 \<le> (buy * 10000) div 10000" by (rule zdiv_mono1) simp
  then show ?thesis by simp
qed

lemma scaled_less:
  assumes "0 < (buy::int)" "0 \<le> m" "m \<le> 9999"
  shows "(buy * m) div 10000 < buy"
proof -
  from assms have "buy * m \<le> buy * 9999" by (simp add: mult_left_mono)
  also from assms(1) have "\<dots> < buy * 10000" by simp
  finally have "buy * m < buy * 10000" .
  then show ?thesis by (simp add: div_less_iff_less_mult algebra_simps)
qed

text \<open>The number of basis points that \<open>getSwapQuote\<close> subtracts, and the number that the
  9MM adapter keeps.\<close>

lemma roundDouble_upto:
  assumes "0 \<le> x" "x \<le> of_int n" "0 < n" "n < 2 ^ 53"
  shows "roundDouble x \<le> of_int n"
proof (cases "x = 0")
  case True
  with assms(3) show ?thesis by (simp add: roundDouble_def)
next
  case False
  with assms(1) have "0 < x" by simp
  with assms(2) show ?thesis
    by (intro roundDouble_upper [where k = n and j = 0] assms(3,4)) simp_all
qed

lemma swap_bps_range:
  assumes "0 \<le> s" "s \<le> 100"
  shows "0 \<le> \<lfloor>roundDouble (s * 100)\<rfloor> \<and> \<lfloor>roundDouble (s * 100)\<rfloor> \<le> 10000"
proof -
  from assms have x: "0 \<le> s * 100" "s * 100 \<le> of_int 10000" by simp_all
  from x(1) have "0 \<le> roundDouble (s * 100)" by (rule roundDouble_nonneg)
  moreover from x have "roundDouble (s * 100) \<le> of_int 10000" by (rule roundDouble_upto) simp_all
  ultimately show ?thesis by (simp add: floor_le_iff)
qed

lemma swap_bps_ge1:
  assumes "1 / 100 \<le> s"
  shows "1 \<le> \<lfloor>roundDouble (s * 100)\<rfloor>"
proof -
  from assms have "of_int 1 * 2 powi 0 \<le> s * 100" by simp
  then have "of_int 1 * 2 powi 0 \<le> roundDouble (s * 100)"
    by (intro roundDouble_lower [where k = 1 and j = 0]) simp_all
  then show ?thesis by (simp add: le_floor_iff)
qed

lemma nine_bps_range:
  assumes "0 \<le> s" "s \<le> 100"
  shows "0 \<le> \<lfloor>roundDouble (roundDouble (100 - s) * 100)\<rfloor> \<and>
         \<lfloor>roundDouble (roundDouble (100 - s) * 100)\<rfloor> \<le> 10000"
proof -
  let ?y = "roundDouble (100 - s)"
  from assms have d: "0 \<le> 100 - s" "100 - s \<le> of_int 100" by simp_all
  from d(1) have y0: "0 \<le> ?y" by (rule roundDouble_nonneg)
  from d have y1: "?y \<le> of_int 100" by (rule roundDouble_upto) simp_all
  from y0 y1 have x: "0 \<le> ?y * 100" "?y * 100 \<le> of_int 10000" by simp_all
  from x(1) have "0 \<le> roundDouble (?y * 100)" by (rule roundDouble_nonneg)
  moreover from x have "roundDouble (?y * 100) \<le> of_int 10000" by (rule roundDouble_upto) simp_all
  ultimately show ?thesis by (simp add: floor_le_iff)
qed

lemma nine_bps_le_9999:
  assumes "1 / 100 \<le> s" "s \<le> 100"
  shows "\<lfloor>roundDouble (roundDouble (100 - s) * 100)\<rfloor> \<le> 9999"
proof -
  let ?y = "roundDouble (100 - s)"
  have y0: "0 \<le> ?y" using assms by (intro roundDouble_nonneg) simp
  have y1: "?y \<le> of_int 12799 * 2 powi (- 7)"
  proof (cases "100 - s = 0")
    case True
    then show ?thesis by (simp add: roundDouble_def)
  next
    case False
    with assms have "0 < 100 - s" by simp
    moreover from assms have "100 - s \<le> of_int 12799 * 2 powi (- 7)" by simp
    ultimately show ?thesis
      by (intro roundDouble_upper [where k = 12799 and j = "- 7"]) simp_all
  qed
  have "roundDouble (?y * 100) \<le> of_int 319975 * 2 powi (- 5)"
  proof (cases "?y * 100 = 0")
    case True
    then show ?thesis by (simp add: roundDouble_def)
  next
    case False
    with y0 have "0 < ?y * 100" by simp
    moreover from y1 have "?y * 100 \<le> of_int 319975 * 2 powi (- 5)" by simp
    ultimately show ?thesis
      by (intro roundDouble_upper [where k = 319975 and j = "- 5"]) simp_all
  qed
  then have "roundDouble (?y * 100) < 10000" by simp
  then have "\<lfloor>roundDouble (?y * 100)\<rfloor> < 10000" by (simp add: floor_less_iff)
  then show ?thesis by simp
qed

text \<open>A slippage that is a whole number of quarters of a percent goes through the
  arithmetic without rounding.\<close>

lemma quarter_percent_exact:
  assumes "s * 4 = of_int m" "0 \<le> s" "s \<le> 100"
  shows "\<lfloor>roundDouble (s * 100)\<rfloor> = 25 * m"
    and "\<lfloor>roundDouble (roundDouble (100 - s) * 100)\<rfloor> = 10000 - 25 * m"
proof -
  from assms have "0 \<le> real_of_int m" "real_of_int m \<le> 400" by linarith+
  then have m: "0 \<le> m" "m \<le> 400" by simp_all
  from assms(1) have s: "s = of_int m / 4" by simp
  have "s * 100 = of_int (25 * m)" unfolding s by simp
  then show "\<lfloor>roundDouble (s * 100)\<rfloor> = 25 * m"
    using m by (intro floor_roundDouble_int) simp_all
  have y: "roundDouble (100 - s) = 100 - s"
  proof (cases "m = 400")
    case True
    then show ?thesis by (simp add: s roundDouble_def)
  next
    case False
    with m have "0 < 400 - m" "400 - m < 2 ^ 53" by simp_all
    moreover have "100 - s = of_int (400 - m) * 2 powi (- 2)" unfolding s by simp
    ultimately show ?thesis by (rule roundDouble_exact)
  qed
  have "(100 - s) * 100 = of_int (10000 - 25 * m)" unfolding s by simp
  then show "\<lfloor>roundDouble (roundDouble (100 - s) * 100)\<rfloor> = 10000 - 25 * m"
    unfolding y using m by (intro floor_roundDouble_int) simp_all
qed


lemma getSwapQuote_min:
  assumes "getSwapQuote nm ch now params = (Inr q, nm')"
  shows "nq_toAmountMin q = swapQuote_toAmountMin (nq_toAmount q) (np_slippage params)"
  using assms
  by (auto simp: getSwapQuote_def Let_def split: sum.splits if_splits prod.splits option.splits)

lemma get9MMQuote_min:
  assumes "get9MMQuote v now params = Inr q"
  shows "toAmountMin q = nineMM_toAmountMin (toAmount q) (p_slippage params)"
  using assms
  by (auto simp: get9MMQuote_def nineMM_toAmountMin_def split: if_splits option.splits)

lemma swapQuote_min_div:
  assumes "0 \<le> buy" "0 \<le> s" "s \<le> 100"
  shows "swapQuote_toAmountMin buy s = (buy * (10000 - \<lfloor>roundDouble (s * 100)\<rfloor>)) div 10000"
proof -
  from swap_bps_range [OF assms(2,3)] assms(1)
  have "0 \<le> buy * (10000 - \<lfloor>roundDouble (s * 100)\<rfloor>)" by simp
  then show ?thesis by (simp add: swapQuote_toAmountMin_def Let_def sdiv_nonneg)
qed

lemma nineMM_min_div:
  assumes "0 \<le> buy" "0 \<le> s" "s \<le> 100"
  shows "nineMM_toAmountMin buy s =
           (buy * \<lfloor>roundDouble (roundDouble (100 - s) * 100)\<rfloor>) div 10000"
proof -
  from nine_bps_range [OF assms(2,3)] assms(1)
  have "0 \<le> buy * \<lfloor>roundDouble (roundDouble (100 - s) * 100)\<rfloor>" by simp
  then show ?thesis by (simp add: nineMM_toAmountMin_def sdiv_nonneg)
qed

lemma spec_min_quarter:
  assumes "s * 4 = of_int m"
  shows "spec_minBuyAmount buy s = (buy * (10000 - 25 * m)) div 10000"
proof -
  from assms have s: "s = of_int m / 4" by simp
  have "real_of_int buy * (1 - s / 100) = real_of_int (buy * (10000 - 25 * m)) / 10000"
    unfolding s by (simp add: field_simps)
  then show ?thesis unfolding spec_minBuyAmount_def div_10000_floor by (rule arg_cong)
qed

lemma swap_quote_eval:
  "fst (getSwapQuote nm_fresh (chain_env out) 0 (swap_params slip)) =
     Inr \<lparr>nq_chainId = 8453, nq_fromToken = ''A'', nq_toToken = ''B'', nq_fromAmount = 1000000000,
           nq_toAmount = out, nq_toAmountMin = swapQuote_toAmountMin out slip,
           nq_fee = NINE_MM_FEES_v2, nq_gasEstimate = 150000, nq_route = [''A'', ''B''],
           nq_validUntil = 30000\<rparr>"
  by (simp add: getSwapQuote_def nm_fresh_def chain_env_def swap_params_def get9MMConfig_def
      SUPPORTED_9MM_CHAINS_def getRouterContract_def Let_def)

lemma bps_at_2_pow_minus_8: "\<lfloor>roundDouble (25 / 64)\<rfloor> = 0"
proof -
  have e: "of_int 25 * 2 powi (- 6) = (25 / 64 :: real)" by (simp add: power_int_minus)
  have "roundDouble (of_int 25 * 2 powi (- 6)) = of_int 25 * 2 powi (- 6)"
    by (rule roundDouble_exact [where k = 25 and j = "- 6"]) simp_all
  then have r: "roundDouble (25 / 64) = 25 / 64" unfolding e .
  show ?thesis unfolding r by simp
qed

lemma min_at_2_pow_minus_8: "swapQuote_toAmountMin (2000 * 10 ^ 18) (1 / 256) = 2000 * 10 ^ 18"
  by (simp add: swapQuote_toAmountMin_def Let_def bps_at_2_pow_minus_8 signed_divide_int_def)

lemma min_at_half_percent: "swapQuote_toAmountMin (2000 * 10 ^ 18) (1 / 2) = 1990 * 10 ^ 18"
  by (simp add: swapQuote_toAmountMin_def Let_def bps_at_half signed_divide_int_def)

lemma spec_min_at_2_pow_minus_8:
  "spec_minBuyAmount (2000 * 10 ^ 18) (1 / 256) = 1999921875000000000000"
  by (simp add: spec_minBuyAmount_def)

lemma bps_at_29_hundredths: "\<lfloor>roundDouble (5224175567749775 / 2 ^ 54 * 100)\<rfloor> = 28"
proof -
  let ?x = "5224175567749775 / 2 ^ 54 * 100 :: real"
  have "roundDouble ?x = of_int (round_half_even (?x / 2 powi (4 - 52))) * 2 powi (4 - 52)"
    by (rule roundDouble_binade) simp_all
  moreover have "round_half_even (?x / 2 powi (4 - 52)) = 8162774324609023"
    by (rule round_half_even_near) (simp add: power_int_minus)
  ultimately have r: "roundDouble ?x = 8162774324609023 / 2 ^ 48" by (simp add: power_int_minus)
  show ?thesis unfolding r by (rule floor_unique) simp_all
qed

lemma min_at_29_hundredths:
  "swapQuote_toAmountMin (2000 * 10 ^ 18) (5224175567749775 / 2 ^ 54) = 1994400000000000000000"
  unfolding swapQuote_toAmountMin_def Let_def bps_at_29_hundredths
  by (simp add: signed_divide_int_def)

lemma spec_min_at_29_hundredths:
  "spec_minBuyAmount (2000 * 10 ^ 18) (5224175567749775 / 2 ^ 54) = 1994200000000000000399"
  unfolding spec_minBuyAmount_def by (rule floor_unique) simp_all

text \<open>
  Claim C3 fails as stated. \<open>getSwapQuote\<close> with a slippage of 0.00390625 percent (the
  double \<open>1/256\<close>) and an output of 2000e18 answers a quote whose \<open>toAmountMin\<close> is the whole
  \<open>toAmount\<close>: \<open>Math.floor(0.00390625 * 100)\<close> is 0, so the slippage is positive, the
  minimum is not below the amount, and it is not \<open>floor(buyAmount * (1 - slippageFraction))\<close>,
  which is 1999921875000000000000. With a slippage of 0.29 percent (the double nearest to
  it, \<open>5224175567749775 / 2 ^ 54\<close>) the product \<open>0.29 * 100\<close> is the double just below 29
  and \<open>Math.floor\<close> gives 28 basis points: the minimum is 1994.4e18, and the formula of the
  claim gives 1994200000000000000399.
\<close>

theorem C3_counterexample:
  "map_sum id nq_toAmount (fst (getSwapQuote nm_fresh (chain_env (2000 * 10 ^ 18)) 0 (swap_params (1 / 256))))
     = Inr 2000000000000000000000 \<and>
   map_sum id nq_toAmountMin (fst (getSwapQuote nm_fresh (chain_env (2000 * 10 ^ 18)) 0 (swap_params (1 / 256))))
     = Inr 2000000000000000000000 \<and>
   0 < np_slippage (swap_params (1 / 256)) \<and>
   spec_minBuyAmount 2000000000000000000000 (np_slippage (swap_params (1 / 256))) = 1999921875000000000000 \<and>
   map_sum id nq_toAmountMin
     (fst (getSwapQuote nm_fresh (chain_env (2000 * 10 ^ 18)) 0 (swap_params (5224175567749775 / 2 ^ 54))))
     = Inr 1994400000000000000000 \<and>
   spec_minBuyAmount 2000000000000000000000 (np_slippage (swap_params (5224175567749775 / 2 ^ 54)))
     = 1994200000000000000399"
  unfolding swap_quote_eval
  using min_at_2_pow_minus_8 spec_min_at_2_pow_minus_8 min_at_29_hundredths spec_min_at_29_hundredths
  by (simp add: swap_params_def)

text \<open>
  Claim C3, amended. The slippage is a percentage held in a double, and it is cut to
  whole basis points before it is applied: \<open>getSwapQuote\<close> computes
  \<open>toAmount * (10000 - Math.floor(slippage * 100)) / 10000\<close> and the 9MM adapter
  \<open>buyAmount * Math.floor((100 - slippage) * 100) / 10000\<close>, where the product and the
  difference under \<open>Math.floor\<close> are rounded to doubles and the rest is exact integer
  arithmetic. For a non-negative amount and a slippage between 0 and 100 percent that
  number of basis points lies between 0 and 10000, the division is a floor, and the
  minimum is at most the amount; it is below a positive amount when the slippage is at
  least 0.01 percent; and it equals \<open>floor(buyAmount * (1 - slippageFraction))\<close> when the
  slippage is a whole number of quarter percents, as the default 0.5 is: there the
  operations on doubles are exact.
\<close>

theorem C3_min_amount:
  "(getSwapQuote nm ch now params = (Inr q, nm') \<and> 0 \<le> nq_toAmount q \<and>
      0 \<le> np_slippage params \<and> np_slippage params \<le> 100 \<longrightarrow>
      nq_toAmountMin q =
        (nq_toAmount q * (10000 - \<lfloor>roundDouble (np_slippage params * 100)\<rfloor>)) div 10000 \<and>
      0 \<le> \<lfloor>roundDouble (np_slippage params * 100)\<rfloor> \<and>
      \<lfloor>roundDouble (np_slippage params * 100)\<rfloor> \<le> 10000 \<and>
      nq_toAmountMin q \<le> nq_toAmount q \<and>
      (0 < nq_toAmount q \<and> 1 / 100 \<le> np_slippage params \<longrightarrow> nq_toAmountMin q < nq_toAmount q) \<and>
      (np_slippage params * 4 \<in> \<int> \<longrightarrow>
         nq_toAmountMin q = spec_minBuyAmount (nq_toAmount q) (np_slippage params))) \<and>
   (get9MMQuote v now9 p = Inr q9 \<and> 0 \<le> toAmount q9 \<and> 0 \<le> p_slippage p \<and> p_slippage p \<le> 100 \<longrightarrow>
      toAmountMin q9 =
        (toAmount q9 * \<lfloor>roundDouble (roundDouble (100 - p_slippage p) * 100)\<rfloor>) div 10000 \<and>
      0 \<le> \<lfloor>roundDouble (roundDouble (100 - p_slippage p) * 100)\<rfloor> \<and>
      \<lfloor>roundDouble (roundDouble (100 - p_slippage p) * 100)\<rfloor> \<le> 10000 \<and>
      toAmountMin q9 \<le> toAmount q9 \<and>
      (0 < toAmount q9 \<and> 1 / 100 \<le> p_slippage p \<longrightarrow> toAmountMin q9 < toAmount q9) \<and>
      (p_slippage p * 4 \<in> \<int> \<longrightarrow>
         toAmountMin q9 = spec_minBuyAmount (toAmount q9) (p_slippage p)))"
proof (intro conjI impI)
  assume a: "getSwapQuote nm ch now params = (Inr q, nm') \<and> 0 \<le> nq_toAmount q \<and>
      0 \<le> np_slippage params \<and> np_slippage params \<le> 100"
  let ?b = "nq_toAmount q" and ?s = "np_slippage params"
  let ?k = "\<lfloor>roundDouble (?s * 100)\<rfloor>"
  from a have m: "nq_toAmountMin q = swapQuote_toAmountMin ?b ?s" using getSwapQuote_min by blast
  from a have b: "0 \<le> ?b" and s: "0 \<le> ?s" "?s \<le> 100" by simp_all
  from swap_bps_range [OF s] have k: "0 \<le> 10000 - ?k" "10000 - ?k \<le> 10000" by simp_all
  have d: "swapQuote_toAmountMin ?b ?s = (?b * (10000 - ?k)) div 10000"
    using b s by (rule swapQuote_min_div)
  show "nq_toAmountMin q = (?b * (10000 - ?k)) div 10000" unfolding m d ..
  from swap_bps_range [OF s] show "0 \<le> ?k" "?k \<le> 10000" by simp_all
  show "nq_toAmountMin q \<le> ?b" unfolding m d by (rule scaled_le [OF b k])
  show "nq_toAmountMin q < ?b" if "0 < ?b \<and> 1 / 100 \<le> ?s"
  proof -
    from that have "1 \<le> ?k" by (intro swap_bps_ge1) simp
    with k have "10000 - ?k \<le> 9999" by simp
    with that k show ?thesis unfolding m d by (intro scaled_less) simp_all
  qed
  show "nq_toAmountMin q = spec_minBuyAmount ?b ?s" if "?s * 4 \<in> \<int>"
  proof -
    from that obtain i where i: "?s * 4 = real_of_int i" by (auto simp: Ints_def)
    from quarter_percent_exact(1) [OF i s] have "?k = 25 * i" .
    then show ?thesis unfolding m d spec_min_quarter [OF i] by simp
  qed
next
  assume a: "get9MMQuote v now9 p = Inr q9 \<and> 0 \<le> toAmount q9 \<and> 0 \<le> p_slippage p \<and> p_slippage p \<le> 100"
  let ?b = "toAmount q9" and ?s = "p_slippage p"
  let ?k = "\<lfloor>roundDouble (roundDouble (100 - ?s) * 100)\<rfloor>"
  from a have m: "toAmountMin q9 = nineMM_toAmountMin ?b ?s" using get9MMQuote_min by blast
  from a have b: "0 \<le> ?b" and s: "0 \<le> ?s" "?s \<le> 100" by simp_all
  from nine_bps_range [OF s] have k: "0 \<le> ?k" "?k \<le> 10000" by simp_all
  have d: "nineMM_toAmountMin ?b ?s = (?b * ?k) div 10000"
    using b s by (rule nineMM_min_div)
  show "toAmountMin q9 = (?b * ?k) div 10000" unfolding m d ..
  from k show "0 \<le> ?k" "?k \<le> 10000" .
  show "toAmountMin q9 \<le> ?b" unfolding m d by (rule scaled_le [OF b k])
  show "toAmountMin q9 < ?b" if "0 < ?b \<and> 1 / 100 \<le> ?s"
  proof -
    from that s have "?k \<le> 9999" by (intro nine_bps_le_9999) simp_all
    with that k show ?thesis unfolding m d by (intro scaled_less) simp_all
  qed
  show "toAmountMin q9 = spec_minBuyAmount ?b ?s" if "?s * 4 \<in> \<int>"
  proof -
    from that obtain i where i: "?s * 4 = real_of_int i" by (auto simp: Ints_def)
    from quarter_percent_exact(2) [OF i s] have "?k = 10000 - 25 * i" .
    then show ?thesis unfolding m d spec_min_quarter [OF i] by simp
  qed
qed

lemma nine_quote_eval:
  "get9MMQuote (scenario_venues None None (Some x)) 0 scenario_params = Inr (quote_9mm x)"
  by (simp add: get9MMQuote_def scenario_venues_def scenario_params_def quote_9mm_def)

theorem C3_witness:
  "\<exists>q nm'. getSwapQuote nm_fresh (chain_env (2000 * 10 ^ 18)) 0 (swap_params (1 / 2)) = (Inr q, nm') \<and>
     nq_toAmount q = 2000 * 10 ^ 18 \<and> np_slippage (swap_params (1 / 2)) = 1 / 2 \<and>
     nq_toAmountMin q = 1990 * 10 ^ 18 \<and>
     nq_toAmountMin q = spec_minBuyAmount (nq_toAmount q) (1 / 2) \<and>
     nq_toAmountMin q < nq_toAmount q \<and>
     get9MMQuote (scenario_venues None None (Some (1975 * 10 ^ 18))) 0 scenario_params =
       Inr (quote_9mm (1975 * 10 ^ 18)) \<and>
     p_slippage scenario_params = 1 / 2 \<and>
     toAmountMin (quote_9mm (1975 * 10 ^ 18)) = spec_minBuyAmount (1975 * 10 ^ 18) (1 / 2) \<and>
     toAmountMin (quote_9mm (1975 * 10 ^ 18)) < toAmount (quote_9mm (1975 * 10 ^ 18))"
proof -
  let ?g = "getSwapQuote nm_fresh (chain_env (2000 * 10 ^ 18)) 0 (swap_params (1 / 2))"
  obtain r nm' where g: "?g = (r, nm')" by (cases ?g)
  with swap_quote_eval [of "2000 * 10 ^ 18" "1 / 2"] obtain q where
    q: "?g = (Inr q, nm')" and b: "nq_toAmount q = 2000 * 10 ^ 18"
    and m: "nq_toAmountMin q = swapQuote_toAmountMin (2000 * 10 ^ 18) (1 / 2)"
    by auto
  have s: "np_slippage (swap_params (1 / 2)) = 1 / 2" "p_slippage scenario_params = 1 / 2"
    by (simp_all add: swap_params_def scenario_params_def)
  have t: "toAmount (quote_9mm (1975 * 10 ^ 18)) = 1975 * 10 ^ 18" by (simp add: quote_9mm_def)
  have i: "(1 / 2 :: real) * 4 \<in> \<int>" by simp
  note inst = C3_min_amount [of nm_fresh "chain_env (2000 * 10 ^ 18)" 0 "swap_params (1 / 2)" q nm'
      "scenario_venues None None (Some (1975 * 10 ^ 18))" 0 scenario_params "quote_9mm (1975 * 10 ^ 18)"]
  have p1: "?g = (Inr q, nm') \<and> 0 \<le> nq_toAmount q \<and>
      0 \<le> np_slippage (swap_params (1 / 2)) \<and> np_slippage (swap_params (1 / 2)) \<le> 100"
    using q b s by simp
  have p2: "get9MMQuote (scenario_venues None None (Some (1975 * 10 ^ 18))) 0 scenario_params =
      Inr (quote_9mm (1975 * 10 ^ 18)) \<and> 0 \<le> toAmount (quote_9mm (1975 * 10 ^ 18)) \<and>
      0 \<le> p_slippage scenario_params \<and> p_slippage scenario_params \<le> 100"
    using nine_quote_eval [of "1975 * 10 ^ 18"] t s by simp
  have c: "0 < nq_toAmount q \<and> 1 / 100 \<le> np_slippage (swap_params (1 / 2))"
    "np_slippage (swap_params (1 / 2)) * 4 \<in> \<int>"
    "0 < toAmount (quote_9mm (1975 * 10 ^ 18)) \<and> 1 / 100 \<le> p_slippage scenario_params"
    "p_slippage scenario_params * 4 \<in> \<int>"
    unfolding b s t by simp_all
  from inst p1 c(1,2) have
    "nq_toAmountMin q = spec_minBuyAmount (nq_toAmount q) (np_slippage (swap_params (1 / 2))) \<and>
     nq_toAmountMin q < nq_toAmount q"
    by blast
  then have r1: "nq_toAmountMin q = spec_minBuyAmount (nq_toAmount q) (1 / 2)"
    "nq_toAmountMin q < nq_toAmount q"
    unfolding s by blast+
  from inst p2 c(3,4) have
    "toAmountMin (quote_9mm (1975 * 10 ^ 18)) =
       spec_minBuyAmount (toAmount (quote_9mm (1975 * 10 ^ 18))) (p_slippage scenario_params) \<and>
     toAmountMin (quote_9mm (1975 * 10 ^ 18)) < toAmount (quote_9mm (1975 * 10 ^ 18))"
    by blast
  then have r2: "toAmountMin (quote_9mm (1975 * 10 ^ 18)) = spec_minBuyAmount (1975 * 10 ^ 18) (1 / 2)"
    "toAmountMin (quote_9mm (1975 * 10 ^ 18)) < toAmount (quote_9mm (1975 * 10 ^ 18))"
    unfolding s t by blast+
  from m min_at_half_percent have r3: "nq_toAmountMin q = 1990 * 10 ^ 18" by simp
  from q b s(1) r3 r1 p2 s(2) r2 show ?thesis by blast
qed

section \<open>The executor does not look at validUntil\<close>

lemma quoteByProtocol_clock:
  "quoteByProtocol v now dex p = map_sum id (set_vu (now + 30000)) (quoteByProtocol v t0 dex p)"
  by (cases dex)
     (auto simp: quoteByProtocol_def get1inchQuote_def getParaswapQuote_def getUniswapQuote_def
        getSushiswapQuote_def getPancakeswapQuote_def get9MMQuote_def set_vu_def
        split: option.splits)

lemma getQuoteFromDEX_clock:
  "getQuoteFromDEX cfgs v now dex p = map_sum id (set_vu (now + 30000)) (getQuoteFromDEX cfgs v t0 dex p)"
  unfolding getQuoteFromDEX_def Let_def
  by (subst quoteByProtocol_clock [of v now dex p t0]) (auto split: option.splits sum.splits)

lemma validQuotes_clock:
  "validQuotes cfgs v now p = map (set_vu (now + 30000)) (validQuotes cfgs v t0 p)"
proof -
  have "List.map_filter (\<lambda>dex. case getQuoteFromDEX cfgs v now dex p of Inl e \<Rightarrow> None | Inr q \<Rightarrow> Some q) ds =
        map (set_vu (now + 30000))
          (List.map_filter (\<lambda>dex. case getQuoteFromDEX cfgs v t0 dex p of Inl e \<Rightarrow> None | Inr q \<Rightarrow> Some q) ds)"
    for ds
  proof (induction ds)
    case Nil
    show ?case by (simp add: List.map_filter_simps)
  next
    case (Cons d ds)
    show ?case
      using Cons.IH getQuoteFromDEX_clock [of cfgs v now d p t0]
      by (cases "getQuoteFromDEX cfgs v t0 d p") (simp_all add: List.map_filter_simps)
  qed
  then show ?thesis by (simp add: validQuotes_def)
qed


lemma set_vu_simps [simp]:
  "toAmount (set_vu t q) = toAmount q" "dexProtocol (set_vu t q) = dexProtocol q"
  by (simp_all add: set_vu_def)

lemma foldl_pick_map:
  assumes "\<And>a b. g (f a) (f b) = f (g a b)"
  shows "foldl g (f x) (map f xs) = f (foldl g x xs)"
  using assms by (induction xs arbitrary: x) simp_all

lemma find_set_vu:
  "find (\<lambda>q. dexProtocol q = NINE_MM) (map (set_vu t) qs) =
     map_option (set_vu t) (find (\<lambda>q. dexProtocol q = NINE_MM) qs)"
  by (induction qs) simp_all

lemma selectBest_clock:
  "digest (selectBest pf nc (map (set_vu t) qs)) = digest (selectBest pf nc qs)"
proof (cases qs)
  case Nil
  then show ?thesis by (simp add: selectBest_def)
next
  case (Cons x xs)
  let ?g = "\<lambda>best current. if pf (toAmount current) > pf (toAmount best) then current else best"
  let ?h = "\<lambda>worst current. if pf (toAmount current) < pf (toAmount worst) then current else worst"
  have g: "foldl ?g (set_vu t x) (map (set_vu t) xs) = set_vu t (foldl ?g x xs)"
    by (rule foldl_pick_map) simp
  have h: "foldl ?h (set_vu t x) (map (set_vu t) xs) = set_vu t (foldl ?h x xs)"
    by (rule foldl_pick_map) simp
  have f: "find (\<lambda>q. dexProtocol q = NINE_MM) (set_vu t x # map (set_vu t) xs) =
     map_option (set_vu t) (find (\<lambda>q. dexProtocol q = NINE_MM) (x # xs))"
    using find_set_vu [of t "x # xs"] by simp
  show ?thesis
    unfolding Cons digest_def selectBest_def
    apply (simp only: list.map reduce.simps option.case list.sel g h f)
    apply (cases "find (\<lambda>q. dexProtocol q = NINE_MM) (x # xs)")
     apply (simp_all add: Let_def)
    done
qed

lemma getBestQuote_clock:
  "digest (getBestQuote pf cfgs v now p) = digest (getBestQuote pf cfgs v t0 p)"
  unfolding getBestQuote_def
  by (subst validQuotes_clock [of cfgs v now p t0]) (rule selectBest_clock)


lemma deadlineOr_given: "d \<noteq> 0 \<Longrightarrow> deadlineOr (Some d) now = d"
  by (simp add: deadlineOr_def)

lemma getSwapQuote_clock:
  assumes "np_deadline params = Some d" "d \<noteq> 0"
  shows "getSwapQuote nm ch now params =
     map_prod (map_sum id (\<lambda>q. q\<lparr>nq_validUntil := now + 30000\<rparr>)) id (getSwapQuote nm ch t0 params)"
  using assms
  by (auto simp: getSwapQuote_def Let_def deadlineOr_given split: sum.splits prod.splits option.splits)

lemma nineMM_executeSwap_clock:
  assumes "np_deadline params = Some d" "d \<noteq> 0"
  shows "nineMM_executeSwap nm ch now params w = nineMM_executeSwap nm ch t0 params w"
proof -
  obtain r nm1 where g: "getSwapQuote nm ch t0 params = (r, nm1)" by (cases "getSwapQuote nm ch t0 params")
  from getSwapQuote_clock [OF assms, of nm ch now t0] g
  have g': "getSwapQuote nm ch now params = (map_sum id (\<lambda>q. q\<lparr>nq_validUntil := now + 30000\<rparr>) r, nm1)"
    by simp
  show ?thesis
    unfolding nineMM_executeSwap_def g g'
    using assms
    by (cases r)
       (auto simp: deadlineOr_given Let_def split: prod.splits sum.splits runner.splits option.splits)
qed

lemma aggregatorParams_clock:
  assumes "np_deadline params = Some d" "d \<noteq> 0"
  shows "aggregatorParams now params = aggregatorParams t0 params"
  using assms by (simp add: aggregatorParams_def deadlineOr_given)

lemma confirmSwap_digest:
  assumes "dexProtocol (bestQuote a) = dexProtocol (bestQuote b)"
    and "toAmount (bestQuote a) = toAmount (bestQuote b)" and "savings a = savings b"
  shows "confirmSwap ws ch cid a outcome = confirmSwap ws ch cid b outcome"
  using assms by (auto simp: confirmSwap_def split: prod.splits sum.splits option.splits)

lemma validQuotes_validUntil:
  assumes "q \<in> set (validQuotes cfgs v now p)"
  shows "validUntil q = now + 30000"
  using assms unfolding validQuotes_clock [of cfgs v now p 0] by (auto simp: set_vu_def)

lemma bestQuote_validUntil:
  assumes "getBestQuote parseFloat cfgs v now p = Inr agg"
  shows "validUntil (bestQuote agg) = now + 30000"
proof -
  from getBestQuote_member_dex [OF assms]
  have "bestQuote agg \<in> set (validQuotes cfgs v now p)" by metis
  then show ?thesis by (rule validQuotes_validUntil)
qed

lemma nineMM_executeSwap_sent:
  assumes "getSwapQuote nm ch now params = (Inr quote, nm1)"
    and "getRouterContract nm1 (np_chainId params) (Some wallet) = (Inr (Signer w), nm2)"
    and "rpc_send ch (np_chainId params) w
           \<lparr>sc_amountIn = np_amount params, sc_amountOutMin = nq_toAmountMin quote,
             sc_path = [np_fromToken params, np_toToken params], sc_to = np_userAddress params,
             sc_deadline = deadlineOr (np_deadline params) now,
             sc_gasLimit = Some (nq_gasEstimate quote)\<rparr> = Some hash"
  shows "nineMM_executeSwap nm ch now params wallet =
     (Inr hash, nm2,
      [(w, \<lparr>sc_amountIn = np_amount params, sc_amountOutMin = nq_toAmountMin quote,
             sc_path = [np_fromToken params, np_toToken params], sc_to = np_userAddress params,
             sc_deadline = deadlineOr (np_deadline params) now,
             sc_gasLimit = Some (nq_gasEstimate quote)\<rparr>)])"
  unfolding nineMM_executeSwap_def assms(1) prod.case sum.case assms(2) runner.case Let_def assms(3)
  by simp

lemma confirmSwap_sent:
  assumes "cid \<in> set (ws_providers ws) \<longrightarrow> rpc_waitForTransaction ch cid hash = Some rcpt"
  shows "snd (snd (confirmSwap ws ch cid agg (Inr hash, nm2, sent))) = sent \<and>
         map_sum id tr_txHash (fst (confirmSwap ws ch cid agg (Inr hash, nm2, sent))) = Inr hash"
  using assms by (simp add: confirmSwap_def)

text \<open>
  Claim C5, amended. \<open>executeSwap\<close> never compares a quote's \<open>validUntil\<close> with the clock,
  and no failure for an expired quote exists. The chosen quote is valid until 30 seconds
  after the aggregator was asked; whatever the clock reads when
  \<open>nineMMService.executeSwap\<close> runs, and whether or not the caller gave a deadline, a call
  whose other steps succeed (a wallet is connected, the gas balance suffices, the
  aggregator answers, the swap is quoted again, the router has a signer, the chain accepts
  the transaction and the receipt arrives) hands exactly one transaction to the chain and
  answers success with its hash. For a deadline supplied by the caller, moreover, the
  result, the state left behind and the transactions submitted are the same whatever the
  clock reads while quoting and at submission.
\<close>

theorem C5_expired_quote_is_submitted:
  "(map_of (ws_wallets ws) (np_chainId params) = Some wallet \<and>
    checkGasBalance ws ch (np_chainId params) (wl_address wallet) = Inr () \<and>
    getBestQuote parseFloat cfgs v now_quote (aggregatorParams now_quote params) = Inr agg \<and>
    (dexProtocol (bestQuote agg) = NINE_MM \<or> np_chainId params \<in> {8453, 369, 146}) \<and>
    getSwapQuote nm ch now_submit params = (Inr quote, nm1) \<and>
    getRouterContract nm1 (np_chainId params) (Some wallet) = (Inr (Signer w), nm2) \<and>
    rpc_send ch (np_chainId params) w
      \<lparr>sc_amountIn = np_amount params, sc_amountOutMin = nq_toAmountMin quote,
        sc_path = [np_fromToken params, np_toToken params], sc_to = np_userAddress params,
        sc_deadline = deadlineOr (np_deadline params) now_submit,
        sc_gasLimit = Some (nq_gasEstimate quote)\<rparr> = Some hash \<and>
    (np_chainId params \<in> set (ws_providers ws) \<longrightarrow>
       rpc_waitForTransaction ch (np_chainId params) hash = Some rcpt)
    \<longrightarrow>
    validUntil (bestQuote agg) = now_quote + 30000 \<and>
    snd (snd (executeSwap parseFloat ws nm cfgs v ch now_quote now_submit params)) =
      [(w, \<lparr>sc_amountIn = np_amount params, sc_amountOutMin = nq_toAmountMin quote,
             sc_path = [np_fromToken params, np_toToken params], sc_to = np_userAddress params,
             sc_deadline = deadlineOr (np_deadline params) now_submit,
             sc_gasLimit = Some (nq_gasEstimate quote)\<rparr>)] \<and>
    map_sum id tr_txHash (fst (executeSwap parseFloat ws nm cfgs v ch now_quote now_submit params)) =
      Inr hash) \<and>
   (np_deadline params2 = Some d \<and> d \<noteq> 0 \<longrightarrow>
    executeSwap parseFloat2 ws2 nm0 cfgs2 v2 ch2 t_quote t_submit params2 =
    executeSwap parseFloat2 ws2 nm0 cfgs2 v2 ch2 t_quote' t_submit' params2)"
proof (intro conjI impI)
  assume h: "map_of (ws_wallets ws) (np_chainId params) = Some wallet \<and>
    checkGasBalance ws ch (np_chainId params) (wl_address wallet) = Inr () \<and>
    getBestQuote parseFloat cfgs v now_quote (aggregatorParams now_quote params) = Inr agg \<and>
    (dexProtocol (bestQuote agg) = NINE_MM \<or> np_chainId params \<in> {8453, 369, 146}) \<and>
    getSwapQuote nm ch now_submit params = (Inr quote, nm1) \<and>
    getRouterContract nm1 (np_chainId params) (Some wallet) = (Inr (Signer w), nm2) \<and>
    rpc_send ch (np_chainId params) w
      \<lparr>sc_amountIn = np_amount params, sc_amountOutMin = nq_toAmountMin quote,
        sc_path = [np_fromToken params, np_toToken params], sc_to = np_userAddress params,
        sc_deadline = deadlineOr (np_deadline params) now_submit,
        sc_gasLimit = Some (nq_gasEstimate quote)\<rparr> = Some hash \<and>
    (np_chainId params \<in> set (ws_providers ws) \<longrightarrow>
       rpc_waitForTransaction ch (np_chainId params) hash = Some rcpt)"
  let ?tx = "\<lparr>sc_amountIn = np_amount params, sc_amountOutMin = nq_toAmountMin quote,
        sc_path = [np_fromToken params, np_toToken params], sc_to = np_userAddress params,
        sc_deadline = deadlineOr (np_deadline params) now_submit,
        sc_gasLimit = Some (nq_gasEstimate quote)\<rparr>"
  from h have w: "map_of (ws_wallets ws) (np_chainId params) = Some wallet"
    and g: "checkGasBalance ws ch (np_chainId params) (wl_address wallet) = Inr ()"
    and a: "getBestQuote parseFloat cfgs v now_quote (aggregatorParams now_quote params) = Inr agg"
    and r: "dexProtocol (bestQuote agg) = NINE_MM \<or> np_chainId params \<in> {8453, 369, 146}"
    and q: "getSwapQuote nm ch now_submit params = (Inr quote, nm1)"
    and c: "getRouterContract nm1 (np_chainId params) (Some wallet) = (Inr (Signer w), nm2)"
    and s: "rpc_send ch (np_chainId params) w ?tx = Some hash"
    and t: "np_chainId params \<in> set (ws_providers ws) \<longrightarrow>
       rpc_waitForTransaction ch (np_chainId params) hash = Some rcpt"
    by blast+
  from a show "validUntil (bestQuote agg) = now_quote + 30000" by (rule bestQuote_validUntil)
  have n: "nineMM_executeSwap nm ch now_submit params wallet = (Inr hash, nm2, [(w, ?tx)])"
    using q c s by (rule nineMM_executeSwap_sent)
  have e: "executeSwap parseFloat ws nm cfgs v ch now_quote now_submit params =
      confirmSwap ws ch (np_chainId params) agg (Inr hash, nm2, [(w, ?tx)])"
    unfolding executeSwap_def w g a option.case sum.case n using r by auto
  from confirmSwap_sent [OF t, of agg nm2 "[(w, ?tx)]"]
  show "snd (snd (executeSwap parseFloat ws nm cfgs v ch now_quote now_submit params)) = [(w, ?tx)]"
    and "map_sum id tr_txHash (fst (executeSwap parseFloat ws nm cfgs v ch now_quote now_submit params)) =
      Inr hash"
    unfolding e by blast+
next
  assume "np_deadline params2 = Some d \<and> d \<noteq> 0"
  then have assms: "np_deadline params2 = Some d" "d \<noteq> 0" by blast+
  let ?p = "aggregatorParams t_quote params2"
  let ?A = "getBestQuote parseFloat2 cfgs2 v2 t_quote ?p"
  let ?B = "getBestQuote parseFloat2 cfgs2 v2 t_quote' ?p"
  have p: "aggregatorParams t_quote' params2 = ?p" using assms by (rule aggregatorParams_clock)
  have n: "nineMM_executeSwap nm0 ch2 t_submit params2 w = nineMM_executeSwap nm0 ch2 t_submit' params2 w" for w
    using assms by (rule nineMM_executeSwap_clock)
  have dg: "digest ?A = digest ?B" by (rule getBestQuote_clock)
  show "executeSwap parseFloat2 ws2 nm0 cfgs2 v2 ch2 t_quote t_submit params2 =
    executeSwap parseFloat2 ws2 nm0 cfgs2 v2 ch2 t_quote' t_submit' params2"
  proof (cases ?A)
    case (Inl e)
    with dg have B: "?B = Inl e" by (cases ?B) (simp_all add: digest_def)
    show ?thesis unfolding executeSwap_def p n Inl B by (rule refl)
  next
    case (Inr a)
    with dg obtain b where b: "?B = Inr b" and e: "dexProtocol (bestQuote a) = dexProtocol (bestQuote b)"
      "toAmount (bestQuote a) = toAmount (bestQuote b)" "savings a = savings b"
      by (cases ?B) (simp_all add: digest_def)
    have c: "confirmSwap ws2 ch2 cid a outcome = confirmSwap ws2 ch2 cid b outcome" for cid outcome
      using e by (rule confirmSwap_digest)
    show ?thesis unfolding executeSwap_def p n Inr b sum.case e(1) c by (rule refl)
  qed
qed

lemma stale_params:
  "aggregatorParams 0 ((swap_params (1 / 2))\<lparr>np_deadline := dl\<rparr>) =
     \<lparr>p_fromToken = ''A'', p_toToken = ''B'', p_amount = 1000000000, p_slippage = 1 / 2,
       p_deadline = deadlineOr dl 0, p_chainId = 8453, p_dexProtocol = NINE_MM,
       p_userAddress = ''0xUser''\<rparr>"
  by (simp add: aggregatorParams_def swap_params_def)

lemma stale_validQuotes:
  "validQuotes initializeDEXConfigs (scenario_venues None None (Some (1990 * 10 ^ 18))) 0
      (aggregatorParams 0 ((swap_params (1 / 2))\<lparr>np_deadline := dl\<rparr>)) = [quote_9mm (1990 * 10 ^ 18)]"
  unfolding validQuotes_def stale_params
  by (simp add: initial_available List.map_filter_def getQuoteFromDEX_def initial_map_of
      quoteByProtocol_def get9MMQuote_def get1inchQuote_def getUniswapQuote_def
      scenario_venues_def quote_9mm_def)

lemma stale_best:
  "getBestQuote parseFloat_js initializeDEXConfigs (scenario_venues None None (Some (1990 * 10 ^ 18))) 0
      (aggregatorParams 0 ((swap_params (1 / 2))\<lparr>np_deadline := dl\<rparr>)) =
   Inr \<lparr>bestQuote = quote_9mm (1990 * 10 ^ 18), allQuotes = [quote_9mm (1990 * 10 ^ 18)],
         savings = \<lparr>sv_amount = 0, sv_percentage = Some 0\<rparr>, recommendedDEX = NINE_MM\<rparr>"
  unfolding getBestQuote_def stale_validQuotes
  by (simp add: stale_params is9MMChain_def selectBest_def within_tolerance_def Let_def quote_9mm_def
      pf_1990)

lemma swap_params_id: "(swap_params s)\<lparr>np_deadline := Some 1700000000\<rparr> = swap_params s"
  by (simp add: swap_params_def)

lemma nm_signed_eq:
  "nm_signed = \<lparr>nm_providers = [8453, 369, 146], nm_contracts = [(8453, Signer user_wallet)]\<rparr>"
  by (simp add: nm_signed_def getRouterContract_def nm_fresh_def get9MMConfig_def SUPPORTED_9MM_CHAINS_def)

lemma stale_quote:
  "getSwapQuote nm_signed (chain_env (1985 * 10 ^ 18)) 60000 ((swap_params (1 / 2))\<lparr>np_deadline := dl\<rparr>) =
     (Inr \<lparr>nq_chainId = 8453, nq_fromToken = ''A'', nq_toToken = ''B'', nq_fromAmount = 1000000000,
            nq_toAmount = 1985000000000000000000, nq_toAmountMin = 1975075000000000000000,
            nq_fee = NINE_MM_FEES_v2, nq_gasEstimate = 150000, nq_route = [''A'', ''B''],
            nq_validUntil = 90000\<rparr>, nm_signed)"
  unfolding nm_signed_eq
  by (simp add: getSwapQuote_def getRouterContract_def get9MMConfig_def
      SUPPORTED_9MM_CHAINS_def chain_env_def swap_params_def Let_def
      swapQuote_toAmountMin_def signed_divide_int_def bps_at_half)

lemma stale_router:
  "getRouterContract nm_signed 8453 (Some user_wallet) = (Inr (Signer user_wallet), nm_signed)"
  unfolding nm_signed_eq by (simp add: getRouterContract_def)

lemma stale_submit:
  "nineMM_executeSwap nm_signed (chain_env (1985 * 10 ^ 18)) 60000
      ((swap_params (1 / 2))\<lparr>np_deadline := dl\<rparr>) user_wallet =
     (Inr ''0xabc'', nm_signed,
      [(user_wallet, \<lparr>sc_amountIn = 1000000000, sc_amountOutMin = 1975075000000000000000,
          sc_path = [''A'', ''B''], sc_to = ''0xUser'', sc_deadline = deadlineOr dl 60000,
          sc_gasLimit = Some 150000\<rparr>)])"
  unfolding nineMM_executeSwap_def stale_quote
  by (simp add: swap_params_def stale_router chain_env_def)

lemma stale_gas:
  "checkGasBalance ws_connected (chain_env (1985 * 10 ^ 18)) 8453 (wl_address user_wallet) = Inr ()"
  by (simp add: checkGasBalance_def ws_connected_def chain_env_def
      get9MMConfig_def SUPPORTED_9MM_CHAINS_def)

lemma stale_run:
  "executeSwap parseFloat_js ws_connected nm_signed initializeDEXConfigs
      (scenario_venues None None (Some (1990 * 10 ^ 18))) (chain_env (1985 * 10 ^ 18)) 0 60000
      ((swap_params (1 / 2))\<lparr>np_deadline := dl\<rparr>) =
   (Inr \<lparr>tr_txHash = ''0xabc'', tr_gasUsed = Some 120000, tr_blockNumber = Some 7,
          tr_metadata = \<lparr>md_dexUsed = NINE_MM, md_quotedAmount = 1990 * 10 ^ 18,
                          md_savings = Some \<lparr>sv_amount = 0, sv_percentage = Some 0\<rparr>\<rparr>\<rparr>,
    nm_signed,
    [(user_wallet, \<lparr>sc_amountIn = 1000000000, sc_amountOutMin = 1975075000000000000000,
        sc_path = [''A'', ''B''], sc_to = ''0xUser'', sc_deadline = deadlineOr dl 60000,
        sc_gasLimit = Some 150000\<rparr>)])"
proof -
  have c: "np_chainId ((swap_params (1 / 2))\<lparr>np_deadline := dl\<rparr>) = 8453" by (simp add: swap_params_def)
  have w: "map_of (ws_wallets ws_connected) 8453 = Some user_wallet"
    by (simp add: ws_connected_def)
  show ?thesis
    unfolding executeSwap_def c w stale_gas stale_best stale_submit option.case sum.case
    by (simp add: confirmSwap_def ws_connected_def SUPPORTED_9MM_CHAINS_def chain_env_def quote_9mm_def)
qed

text \<open>
  Claim C5 fails as stated. The aggregator builds its quotes at time 0, so the chosen
  quote is valid until 30000; \<open>nineMMService.executeSwap\<close> runs at time 60000, when the
  quote has expired. \<open>executeSwap\<close> nevertheless succeeds with the transaction hash, and
  one transaction has been handed to the chain.
\<close>

theorem C5_counterexample:
  "map_sum id (validUntil \<circ> bestQuote)
     (getBestQuote parseFloat_js initializeDEXConfigs (scenario_venues None None (Some (1990 * 10 ^ 18))) 0
        (aggregatorParams 0 (swap_params (1 / 2)))) = Inr 30000 \<and>
   (30000 :: int) < 60000 \<and>
   map_sum id tr_txHash
     (fst (executeSwap parseFloat_js ws_connected nm_signed initializeDEXConfigs
        (scenario_venues None None (Some (1990 * 10 ^ 18))) (chain_env (1985 * 10 ^ 18)) 0 60000
        (swap_params (1 / 2)))) = Inr ''0xabc'' \<and>
   snd (snd (executeSwap parseFloat_js ws_connected nm_signed initializeDEXConfigs
        (scenario_venues None None (Some (1990 * 10 ^ 18))) (chain_env (1985 * 10 ^ 18)) 0 60000
        (swap_params (1 / 2)))) =
     [(user_wallet, \<lparr>sc_amountIn = 1000000000, sc_amountOutMin = 1975075000000000000000,
        sc_path = [''A'', ''B''], sc_to = ''0xUser'', sc_deadline = 1700000000,
        sc_gasLimit = Some 150000\<rparr>)]"
  using stale_run [of "Some 1700000000"] stale_best [of "Some 1700000000"]
  unfolding swap_params_id by (simp add: quote_9mm_def deadlineOr_def)

theorem C5_witness:
  "np_deadline ((swap_params (1 / 2))\<lparr>np_deadline := None\<rparr>) = None \<and>
   map_sum id (validUntil \<circ> bestQuote)
     (getBestQuote parseFloat_js initializeDEXConfigs (scenario_venues None None (Some (1990 * 10 ^ 18))) 0
        (aggregatorParams 0 ((swap_params (1 / 2))\<lparr>np_deadline := None\<rparr>))) = Inr 30000 \<and>
   (30000 :: int) < 60000 \<and>
   snd (snd (executeSwap parseFloat_js ws_connected nm_signed initializeDEXConfigs
        (scenario_venues None None (Some (1990 * 10 ^ 18))) (chain_env (1985 * 10 ^ 18)) 0 60000
        ((swap_params (1 / 2))\<lparr>np_deadline := None\<rparr>))) =
     [(user_wallet, \<lparr>sc_amountIn = 1000000000, sc_amountOutMin = 1975075000000000000000,
        sc_path = [''A'', ''B''], sc_to = ''0xUser'', sc_deadline = 1260,
        sc_gasLimit = Some 150000\<rparr>)] \<and>
   map_sum id tr_txHash
     (fst (executeSwap parseFloat_js ws_connected nm_signed initializeDEXConfigs
        (scenario_venues None None (Some (1990 * 10 ^ 18))) (chain_env (1985 * 10 ^ 18)) 0 60000
        ((swap_params (1 / 2))\<lparr>np_deadline := None\<rparr>))) = Inr ''0xabc'' \<and>
   np_deadline (swap_params (1 / 2)) = Some 1700000000 \<and> (1700000000 :: int) \<noteq> 0 \<and>
   executeSwap parseFloat_js ws_connected nm_signed initializeDEXConfigs
      (scenario_venues None None (Some (1990 * 10 ^ 18))) (chain_env (1985 * 10 ^ 18)) 0 60000
      (swap_params (1 / 2)) =
   executeSwap parseFloat_js ws_connected nm_signed initializeDEXConfigs
      (scenario_venues None None (Some (1990 * 10 ^ 18))) (chain_env (1985 * 10 ^ 18)) 0 0
      (swap_params (1 / 2))"
proof -
  let ?p = "(swap_params (1 / 2))\<lparr>np_deadline := None\<rparr>"
  let ?v = "scenario_venues None None (Some (1990 * 10 ^ 18))"
  let ?ch = "chain_env (1985 * 10 ^ 18)"
  let ?agg = "\<lparr>bestQuote = quote_9mm (1990 * 10 ^ 18), allQuotes = [quote_9mm (1990 * 10 ^ 18)],
         savings = \<lparr>sv_amount = 0, sv_percentage = Some 0\<rparr>, recommendedDEX = NINE_MM\<rparr>"
  let ?q = "\<lparr>nq_chainId = 8453, nq_fromToken = ''A'', nq_toToken = ''B'', nq_fromAmount = 1000000000,
            nq_toAmount = 1985000000000000000000, nq_toAmountMin = 1975075000000000000000,
            nq_fee = NINE_MM_FEES_v2, nq_gasEstimate = 150000, nq_route = [''A'', ''B''],
            nq_validUntil = 90000\<rparr>"
  let ?rc = "Some \<lparr>rc_gasUsed = 120000, rc_blockNumber = 7\<rparr>"
  have c: "np_chainId ?p = 8453" "np_deadline ?p = None" by (simp_all add: swap_params_def)
  have h1: "map_of (ws_wallets ws_connected) (np_chainId ?p) = Some user_wallet"
    unfolding c by (simp add: ws_connected_def)
  have h2: "checkGasBalance ws_connected ?ch (np_chainId ?p) (wl_address user_wallet) = Inr ()"
    unfolding c by (rule stale_gas)
  have h3: "getBestQuote parseFloat_js initializeDEXConfigs ?v 0 (aggregatorParams 0 ?p) = Inr ?agg"
    by (rule stale_best)
  have h4: "dexProtocol (bestQuote ?agg) = NINE_MM \<or> np_chainId ?p \<in> {8453, 369, 146}"
    unfolding c by simp
  have h5: "getSwapQuote nm_signed ?ch 60000 ?p = (Inr ?q, nm_signed)" by (rule stale_quote)
  have h6: "getRouterContract nm_signed (np_chainId ?p) (Some user_wallet) =
      (Inr (Signer user_wallet), nm_signed)"
    unfolding c by (rule stale_router)
  have h7: "rpc_send ?ch (np_chainId ?p) user_wallet
      \<lparr>sc_amountIn = np_amount ?p, sc_amountOutMin = nq_toAmountMin ?q,
        sc_path = [np_fromToken ?p, np_toToken ?p], sc_to = np_userAddress ?p,
        sc_deadline = deadlineOr (np_deadline ?p) 60000,
        sc_gasLimit = Some (nq_gasEstimate ?q)\<rparr> = Some ''0xabc''"
    by (simp add: chain_env_def)
  have h8: "np_chainId ?p \<in> set (ws_providers ws_connected) \<longrightarrow>
       rpc_waitForTransaction ?ch (np_chainId ?p) ''0xabc'' = Some ?rc"
    by (simp add: chain_env_def)
  have d: "np_deadline (swap_params (1 / 2)) = Some 1700000000" "(1700000000 :: int) \<noteq> 0"
    by (simp_all add: swap_params_def)
  note inst = C5_expired_quote_is_submitted
    [of ws_connected ?p user_wallet ?ch parseFloat_js initializeDEXConfigs ?v 0 ?agg nm_signed 60000 ?q
        nm_signed user_wallet nm_signed "''0xabc''" ?rc
        "swap_params (1 / 2)" 1700000000 parseFloat_js ws_connected nm_signed initializeDEXConfigs ?v ?ch
        0 60000 0 0]
  from inst h1 h2 h3 h4 h5 h6 h7 h8 have
    r1: "snd (snd (executeSwap parseFloat_js ws_connected nm_signed initializeDEXConfigs ?v ?ch 0 60000 ?p)) =
      [(user_wallet, \<lparr>sc_amountIn = np_amount ?p, sc_amountOutMin = nq_toAmountMin ?q,
        sc_path = [np_fromToken ?p, np_toToken ?p], sc_to = np_userAddress ?p,
        sc_deadline = deadlineOr (np_deadline ?p) 60000,
        sc_gasLimit = Some (nq_gasEstimate ?q)\<rparr>)]"
    and r2: "map_sum id tr_txHash
       (fst (executeSwap parseFloat_js ws_connected nm_signed initializeDEXConfigs ?v ?ch 0 60000 ?p)) =
      Inr ''0xabc''"
    and r0: "validUntil (bestQuote ?agg) = 0 + 30000"
    by blast+
  from inst d have r3: "executeSwap parseFloat_js ws_connected nm_signed initializeDEXConfigs ?v ?ch 0 60000
      (swap_params (1 / 2)) =
    executeSwap parseFloat_js ws_connected nm_signed initializeDEXConfigs ?v ?ch 0 0 (swap_params (1 / 2))"
    by blast
  have tx: "\<lparr>sc_amountIn = np_amount ?p, sc_amountOutMin = nq_toAmountMin ?q,
        sc_path = [np_fromToken ?p, np_toToken ?p], sc_to = np_userAddress ?p,
        sc_deadline = deadlineOr (np_deadline ?p) 60000,
        sc_gasLimit = Some (nq_gasEstimate ?q)\<rparr> =
     \<lparr>sc_amountIn = 1000000000, sc_amountOutMin = 1975075000000000000000,
        sc_path = [''A'', ''B''], sc_to = ''0xUser'', sc_deadline = 1260,
        sc_gasLimit = Some 150000\<rparr>"
    by (simp add: swap_params_def deadlineOr_def)
  have v: "map_sum id (validUntil \<circ> bestQuote)
     (getBestQuote parseFloat_js initializeDEXConfigs ?v 0 (aggregatorParams 0 ?p)) = Inr 30000"
    unfolding h3 using r0 by simp
  have l: "(30000 :: int) < 60000" by simp
  from c(2) v l r1 [unfolded tx] r2 d r3 show ?thesis by blast
qed
section \<open>Comparing prices across chains\<close>

lemma getSwapQuote_providers:
  "nm_providers (snd (getSwapQuote nm ch now p)) = nm_providers nm"
  by (auto simp: getSwapQuote_def getRouterContract_def Let_def
      split: sum.splits option.splits prod.splits if_splits)

lemma getSwapQuote_result:
  assumes "nm_providers nm1 = nm_providers nm2"
  shows "fst (getSwapQuote nm1 ch now p) = fst (getSwapQuote nm2 ch now p)"
  using assms
  by (auto simp: getSwapQuote_def getRouterContract_def Let_def
      split: sum.splits option.splits prod.splits if_splits)


lemma collectQuotes_eq:
  "\<exists>nm'. collectQuotes ch now f t a cids nm acc =
      (acc @ List.map_filter (\<lambda>cid. case chainQuote nm ch now f t a cid of
                                        Inl e \<Rightarrow> None | Inr q \<Rightarrow> Some q) cids, nm') \<and>
     nm_providers nm' = nm_providers nm"
proof (induction cids arbitrary: nm acc)
  case Nil
  show ?case by (simp add: List.map_filter_simps)
next
  case (Cons cid cids)
  obtain r nm1 where g: "getSwapQuote nm ch now (compareParams cid f t a) = (r, nm1)"
    by (cases "getSwapQuote nm ch now (compareParams cid f t a)")
  from getSwapQuote_providers [of nm ch now "compareParams cid f t a"] g
  have p: "nm_providers nm1 = nm_providers nm" by simp
  have same: "chainQuote nm1 ch now f t a c = chainQuote nm ch now f t a c" for c
    unfolding chainQuote_def by (rule getSwapQuote_result [OF p])
  from g have r: "chainQuote nm ch now f t a cid = r" by (simp add: chainQuote_def)
  show ?case
  proof (cases r)
    case (Inl e)
    from Cons.IH [of nm1 acc] obtain nm' where
      "collectQuotes ch now f t a cids nm1 acc =
         (acc @ List.map_filter (\<lambda>cid. case chainQuote nm1 ch now f t a cid of
                                        Inl e \<Rightarrow> None | Inr q \<Rightarrow> Some q) cids, nm')"
      and "nm_providers nm' = nm_providers nm1" by blast
    with g Inl r p show ?thesis by (simp add: same List.map_filter_simps)
  next
    case (Inr q)
    from Cons.IH [of nm1 "acc @ [q]"] obtain nm' where
      "collectQuotes ch now f t a cids nm1 (acc @ [q]) =
         ((acc @ [q]) @ List.map_filter (\<lambda>cid. case chainQuote nm1 ch now f t a cid of
                                        Inl e \<Rightarrow> None | Inr q \<Rightarrow> Some q) cids, nm')"
      and "nm_providers nm' = nm_providers nm1" by blast
    with g Inr r p show ?thesis by (simp add: same List.map_filter_simps)
  qed
qed

lemma set_insert_by: "set (insert_by cmp x xs) = insert x (set xs)"
  by (induction xs) auto

lemma mset_insert_by: "mset (insert_by cmp x xs) = add_mset x (mset xs)"
  by (induction xs) auto

lemma mset_js_sort: "mset (js_sort cmp xs) = mset xs"
  by (induction xs) (simp_all add: js_sort_def mset_insert_by)

lemma sorted_insert_by:
  fixes key :: "'a \<Rightarrow> int"
  assumes "sorted_wrt (\<lambda>a b. key b \<le> key a) xs"
  shows "sorted_wrt (\<lambda>a b. key b \<le> key a) (insert_by (\<lambda>a b. key b - key a) x xs)"
  using assms by (induction xs) (auto simp: set_insert_by)

lemma sorted_js_sort:
  fixes key :: "'a \<Rightarrow> int"
  shows "sorted_wrt (\<lambda>a b. key b \<le> key a) (js_sort (\<lambda>a b. key b - key a) xs)"
  by (induction xs) (simp_all add: js_sort_def sorted_insert_by)

lemma compareChainPrices_eq:
  "\<exists>nm'. compareChainPrices nm ch now f t a =
     (Inr (js_sort (\<lambda>a b. nq_toAmount b - nq_toAmount a) (survivingQuotes nm ch now f t a)), nm')"
proof -
  from collectQuotes_eq [of ch now f t a "[8453, 369, 146]" nm "[]"]
  obtain nm' where "collectQuotes ch now f t a [8453, 369, 146] nm [] = (survivingQuotes nm ch now f t a, nm')"
    by (auto simp: survivingQuotes_def)
  then show ?thesis by (simp add: compareChainPrices_def)
qed

lemma surviving_Nil:
  "survivingQuotes nm ch now f t a = [] \<longleftrightarrow> everyChainFails nm ch now f t a"
  by (auto simp: survivingQuotes_def everyChainFails_def List.map_filter_simps split: sum.splits)


text \<open>
  Claim C6, amended. \<open>compareChainPrices\<close> never fails. It resolves to the quotes of
  the chains that answered, a failing chain being left out, ordered by descending
  \<open>toAmount\<close>. The list is empty exactly when every chain fails, and
  \<open>getBestChainForPair\<close> answers \<open>null\<close> exactly then, and the head of the list
  otherwise.
\<close>

theorem C6_sorted_survivors:
  "\<exists>qs nm'. compareChainPrices nm ch now f t a = (Inr qs, nm') \<and>
     sorted_desc qs \<and>
     mset qs = mset (survivingQuotes nm ch now f t a) \<and>
     (qs = [] \<longleftrightarrow> everyChainFails nm ch now f t a) \<and>
     fst (getBestChainForPair nm ch now f t a) = Inr (case qs of [] \<Rightarrow> None | q # _ \<Rightarrow> Some q) \<and>
     (fst (getBestChainForPair nm ch now f t a) = Inr None \<longleftrightarrow> everyChainFails nm ch now f t a)"
proof -
  let ?qs = "js_sort (\<lambda>a b. nq_toAmount b - nq_toAmount a) (survivingQuotes nm ch now f t a)"
  from compareChainPrices_eq [of nm ch now f t a]
  obtain nm' where c: "compareChainPrices nm ch now f t a = (Inr ?qs, nm')" by blast
  have s: "sorted_desc ?qs" unfolding sorted_desc_def by (rule sorted_js_sort)
  have m: "mset ?qs = mset (survivingQuotes nm ch now f t a)" by (rule mset_js_sort)
  have "?qs = [] \<longleftrightarrow> survivingQuotes nm ch now f t a = []"
    using m by (metis mset_zero_iff)
  then have e: "?qs = [] \<longleftrightarrow> everyChainFails nm ch now f t a" by (simp add: surviving_Nil)
  from c have b: "fst (getBestChainForPair nm ch now f t a) = Inr (case ?qs of [] \<Rightarrow> None | q # _ \<Rightarrow> Some q)"
    by (simp add: getBestChainForPair_def)
  have n: "fst (getBestChainForPair nm ch now f t a) = Inr None \<longleftrightarrow> everyChainFails nm ch now f t a"
    unfolding b e [symmetric] by (cases ?qs) simp_all
  from c s m e b n show ?thesis by blast
qed

lemma down_fails: "chainQuote nm_fresh chain_down 0 ''A'' ''B'' 1000000000 cid = Inl (if cid \<in> {8453, 369, 146} then ''getAmountsOut failed'' else ''9MM not deployed on chain'')"
  by (simp add: chainQuote_def getSwapQuote_def compareParams_def chain_down_def nm_fresh_def
      get9MMConfig_def SUPPORTED_9MM_CHAINS_def getRouterContract_def)

lemma down_every: "everyChainFails nm_fresh chain_down 0 ''A'' ''B'' 1000000000"
  by (simp add: everyChainFails_def down_fails)

text \<open>
  Claim C6 fails as stated. When every chain fails to quote, \<open>compareChainPrices\<close>
  does not fail: it resolves to the empty list.
\<close>

theorem C6_counterexample:
  "everyChainFails nm_fresh chain_down 0 ''A'' ''B'' 1000000000 \<and>
   fst (compareChainPrices nm_fresh chain_down 0 ''A'' ''B'' 1000000000) = Inr [] \<and>
   \<not> isl (fst (compareChainPrices nm_fresh chain_down 0 ''A'' ''B'' 1000000000))"
proof -
  have "survivingQuotes nm_fresh chain_down 0 ''A'' ''B'' 1000000000 = []"
    using down_every by (simp add: surviving_Nil)
  with compareChainPrices_eq [of nm_fresh chain_down 0 "''A''" "''B''" 1000000000]
  have "fst (compareChainPrices nm_fresh chain_down 0 ''A'' ''B'' 1000000000) = Inr []"
    by (auto simp: js_sort_def)
  with down_every show ?thesis by simp
qed

lemma mixed_quotes:
  "chainQuote nm_fresh chain_mixed 0 ''A'' ''B'' 1000000000 8453 =
     Inr \<lparr>nq_chainId = 8453, nq_fromToken = ''A'', nq_toToken = ''B'', nq_fromAmount = 1000000000,
           nq_toAmount = 100, nq_toAmountMin = 99, nq_fee = NINE_MM_FEES_v2,
           nq_gasEstimate = 150000, nq_route = [''A'', ''B''], nq_validUntil = 30000\<rparr>"
  "chainQuote nm_fresh chain_mixed 0 ''A'' ''B'' 1000000000 369 = Inl ''getAmountsOut failed''"
  "chainQuote nm_fresh chain_mixed 0 ''A'' ''B'' 1000000000 146 =
     Inr \<lparr>nq_chainId = 146, nq_fromToken = ''A'', nq_toToken = ''B'', nq_fromAmount = 1000000000,
           nq_toAmount = 300, nq_toAmountMin = 298, nq_fee = NINE_MM_FEES_v2,
           nq_gasEstimate = 150000, nq_route = [''A'', ''B''], nq_validUntil = 30000\<rparr>"
  by (simp_all add: chainQuote_def getSwapQuote_def compareParams_def chain_mixed_def nm_fresh_def
      get9MMConfig_def SUPPORTED_9MM_CHAINS_def getRouterContract_def Let_def
      swapQuote_toAmountMin_def signed_divide_int_def bps_at_half)

theorem C6_witness:
  "\<not> everyChainFails nm_fresh chain_mixed 0 ''A'' ''B'' 1000000000 \<and>
   (\<exists>qs nm'. compareChainPrices nm_fresh chain_mixed 0 ''A'' ''B'' 1000000000 = (Inr qs, nm') \<and>
      map nq_chainId qs = [146, 8453] \<and> map nq_toAmount qs = [300, 100] \<and> sorted_desc qs \<and>
      fst (getBestChainForPair nm_fresh chain_mixed 0 ''A'' ''B'' 1000000000) = Inr (Some (hd qs)))"
proof -
  have n: "\<not> everyChainFails nm_fresh chain_mixed 0 ''A'' ''B'' 1000000000"
    by (simp add: everyChainFails_def mixed_quotes)
  from C6_sorted_survivors [of nm_fresh chain_mixed 0 "''A''" "''B''" 1000000000]
  obtain qs nm' where c: "compareChainPrices nm_fresh chain_mixed 0 ''A'' ''B'' 1000000000 = (Inr qs, nm')"
    and s: "sorted_desc qs"
    and b: "fst (getBestChainForPair nm_fresh chain_mixed 0 ''A'' ''B'' 1000000000) =
              Inr (case qs of [] \<Rightarrow> None | q # _ \<Rightarrow> Some q)"
    by blast
  from compareChainPrices_eq [of nm_fresh chain_mixed 0 "''A''" "''B''" 1000000000] c
  have q: "qs = js_sort (\<lambda>a b. nq_toAmount b - nq_toAmount a)
                  (survivingQuotes nm_fresh chain_mixed 0 ''A'' ''B'' 1000000000)"
    by auto
  have m: "map nq_chainId qs = [146, 8453] \<and> map nq_toAmount qs = [300, 100]"
    unfolding q by (simp add: survivingQuotes_def List.map_filter_def mixed_quotes js_sort_def)
  then have "qs \<noteq> []" by auto
  then have "(case qs of [] \<Rightarrow> None | q # _ \<Rightarrow> Some q) = Some (hd qs)" by (cases qs) simp_all
  with n c s b m show ?thesis by auto
qed

section \<open>Revoking a session\<close>

lemma map_of_filter_None: "map_of xs k = None \<Longrightarrow> map_of (filter P xs) k = None"
  by (induction xs) (auto split: if_splits)

lemma map_of_delete_None: "map_of xs k = None \<Longrightarrow> map_of (AList.delete k' xs) k = None"
  by (simp add: AList.delete_eq map_of_filter_None)

lemma map_of_delete_self: "map_of (AList.delete k xs) k = None"
  by (simp add: delete_conv)

lemma cleanupEntry_tokens:
  "map_of (sessionTokens us) tok = None \<Longrightarrow> map_of (sessionTokens (cleanupEntry now e us)) tok = None"
  by (cases e) (simp add: cleanupEntry_def map_of_filter_None)

lemma fold_cleanup_tokens:
  "map_of (sessionTokens us) tok = None \<Longrightarrow>
   map_of (sessionTokens (fold (cleanupEntry now) es us)) tok = None"
  by (induction es arbitrary: us) (simp_all add: cleanupEntry_tokens)

lemma step_keeps_token_dead:
  assumes "map_of (sessionTokens us) tok = None" and "\<not> issues j tok op"
  shows "map_of (sessionTokens (fst (step ch j (us, ws) op))) tok = None"
proof (cases op)
  case (CreateUser e now' cids)
  with assms show ?thesis
    by (auto simp: createUser_def Let_def update_conv split: prod.splits sum.splits option.splits)
next
  case (GetUserByToken now' t)
  with assms show ?thesis
    by (auto simp: getUserByToken_def Let_def split: option.splits)
next
  case (ValidateToken now' t)
  with assms show ?thesis
    by (auto simp: validateToken_def split: option.splits)
next
  case (RevokeSession t)
  with assms show ?thesis
    by (auto simp: revokeSession_def map_of_delete_None split: option.splits)
next
  case (CleanupExpiredSessions now')
  with assms show ?thesis
    by (simp add: cleanupExpiredSessions_def fold_cleanup_tokens)
qed

lemma run_keeps_token_dead:
  assumes "map_of (sessionTokens us) tok = None" and "\<forall>op \<in> set ops. \<not> issues j tok op"
  shows "map_of (sessionTokens (fst (foldl (step ch j) (us, ws) ops))) tok = None"
  using assms
proof (induction ops arbitrary: us ws)
  case Nil
  then show ?case by simp
next
  case (Cons op ops)
  obtain us' ws' where s: "step ch j (us, ws) op = (us', ws')" by (cases "step ch j (us, ws) op")
  from Cons.prems have "map_of (sessionTokens (fst (step ch j (us, ws) op))) tok = None"
    by (intro step_keeps_token_dead) simp_all
  with s have "map_of (sessionTokens us') tok = None" by simp
  moreover from Cons.prems have "\<forall>op \<in> set ops. \<not> issues j tok op" by simp
  ultimately have "map_of (sessionTokens (fst (foldl (step ch j) (us', ws') ops))) tok = None"
    by (rule Cons.IH)
  with s show ?case by simp
qed

lemma dead_token_invalid:
  assumes "map_of (sessionTokens us) tok = None"
  shows "fst (getUserByToken us now tok) = None" "getUserSession us tok = None"
    "revokeSession us ws tok = (False, us, ws)"
  using assms by (simp_all add: getUserByToken_def getUserSession_def revokeSession_def)

lemma revoke_live:
  assumes "map_of (sessionTokens us) tok = Some uid" "uid \<noteq> []" "map_of (users us) uid = Some usr"
  shows "revokeSession us ws tok =
     (True,
      us\<lparr>sessionTokens := AList.delete tok (sessionTokens us),
          userSessions := AList.delete (u_sessionId usr) (userSessions us),
          users := AList.delete uid (users us),
          userWallets := AList.delete uid (userWallets us)\<rparr>,
      disconnectWallet ws None)"
  using assms by (simp add: revokeSession_def)

text \<open>
  Claim C7. On a live session (the token maps to a user that exists) the first
  \<open>revokeSession\<close> answers \<open>true\<close> and removes the token mapping, the user and the wallet
  record. From then on \<open>getUserByToken\<close> answers \<open>null\<close> and \<open>revokeSession\<close> answers
  \<open>false\<close> for that token, immediately and after any further operations that do not
  hand out the same token again.
\<close>

theorem C7_revocation_terminal:
  assumes "map_of (sessionTokens us) tok = Some uid" and "uid \<noteq> []"
    and "map_of (users us) uid = Some usr"
  shows "\<exists>us1 ws1. revokeSession us ws tok = (True, us1, ws1) \<and>
     map_of (sessionTokens us1) tok = None \<and> map_of (users us1) uid = None \<and>
     getUserWallet us1 uid = None \<and>
     fst (getUserByToken us1 now tok) = None \<and>
     fst (revokeSession us1 ws1 tok) = False \<and>
     (\<forall>ops. (\<forall>op \<in> set ops. \<not> issues j tok op) \<longrightarrow>
        (let later = foldl (step ch j) (us1, ws1) ops in
           fst (getUserByToken (fst later) now' tok) = None \<and>
           getUserSession (fst later) tok = None \<and>
           fst (revokeSession (fst later) (snd later) tok) = False))"
proof -
  let ?us1 = "us\<lparr>sessionTokens := AList.delete tok (sessionTokens us),
          userSessions := AList.delete (u_sessionId usr) (userSessions us),
          users := AList.delete uid (users us),
          userWallets := AList.delete uid (userWallets us)\<rparr>"
  let ?ws1 = "disconnectWallet ws None"
  have r: "revokeSession us ws tok = (True, ?us1, ?ws1)" using assms by (rule revoke_live)
  have d: "map_of (sessionTokens ?us1) tok = None" by (simp add: map_of_delete_self)
  have u: "map_of (users ?us1) uid = None" "getUserWallet ?us1 uid = None"
    by (simp_all add: map_of_delete_self getUserWallet_def)
  have later: "fst (getUserByToken (fst (foldl (step ch j) (?us1, ?ws1) ops)) now' tok) = None \<and>
           getUserSession (fst (foldl (step ch j) (?us1, ?ws1) ops)) tok = None \<and>
           fst (revokeSession (fst (foldl (step ch j) (?us1, ?ws1) ops))
                  (snd (foldl (step ch j) (?us1, ?ws1) ops)) tok) = False"
    if "\<forall>op \<in> set ops. \<not> issues j tok op" for ops
  proof -
    from d that have "map_of (sessionTokens (fst (foldl (step ch j) (?us1, ?ws1) ops))) tok = None"
      by (rule run_keeps_token_dead)
    then show ?thesis by (simp add: dead_token_invalid)
  qed
  from dead_token_invalid [OF d] have now1: "fst (getUserByToken ?us1 now tok) = None"
    "fst (revokeSession ?us1 ?ws1 tok) = False" by simp_all
  from r d u now1 later show ?thesis unfolding Let_def by blast
qed


lemma create_alice:
  "createUser us_empty ws_empty (chain_env 0) jwt_stub alice 0 [8453] =
     (Inr \<lparr>s_user = alice_user, s_wallet = alice_wallet, s_token = ''jwt.user_a''\<rparr>,
      \<lparr>users = [(''user_a'', alice_user)], userWallets = [(''user_a'', alice_wallet)],
        sessionTokens = [(''jwt.user_a'', ''user_a'')], userSessions = [(''session_a'', ''user_a'')]\<rparr>,
      \<lparr>ws_wallets = [(8453, \<lparr>wl_address = ''0xA'', wl_privateKey = ''0xKeyA''\<rparr>)],
        ws_providers = [8453, 369, 146]\<rparr>)"
  by (simp add: createUser_def generateWallet_def importWallet_def us_empty_def ws_empty_def
      chain_env_def jwt_stub_def alice_def alice_user_def alice_wallet_def get9MMConfig_def
      SUPPORTED_9MM_CHAINS_def Let_def)

lemma us_alice_eq:
  "us_alice = \<lparr>users = [(''user_a'', alice_user)], userWallets = [(''user_a'', alice_wallet)],
        sessionTokens = [(''jwt.user_a'', ''user_a'')], userSessions = [(''session_a'', ''user_a'')]\<rparr>"
  by (simp add: us_alice_def create_alice)

lemma ws_alice_eq:
  "ws_alice = \<lparr>ws_wallets = [(8453, \<lparr>wl_address = ''0xA'', wl_privateKey = ''0xKeyA''\<rparr>)],
        ws_providers = [8453, 369, 146]\<rparr>"
  by (simp add: ws_alice_def create_alice)

theorem C7_witness:
  "map_of (sessionTokens us_alice) ''jwt.user_a'' = Some ''user_a'' \<and> ''user_a'' \<noteq> [] \<and>
   map_of (users us_alice) ''user_a'' = Some alice_user \<and>
   fst (revokeSession us_alice ws_alice ''jwt.user_a'') = True \<and>
   fst (revokeSession (fst (snd (revokeSession us_alice ws_alice ''jwt.user_a'')))
          (snd (snd (revokeSession us_alice ws_alice ''jwt.user_a''))) ''jwt.user_a'') = False \<and>
   fst (getUserByToken
          (fst (foldl (step (chain_env 0) jwt_stub) (snd (revokeSession us_alice ws_alice ''jwt.user_a''))
                  [CreateUser bob 10 [8453], GetUserByToken 20 ''jwt.user_a'', CleanupExpiredSessions 30]))
          40 ''jwt.user_a'') = None"
proof -
  have h: "map_of (sessionTokens us_alice) ''jwt.user_a'' = Some ''user_a''" "''user_a'' \<noteq> []"
    "map_of (users us_alice) ''user_a'' = Some alice_user"
    by (simp_all add: us_alice_eq)
  let ?ops = "[CreateUser bob 10 [8453], GetUserByToken 20 ''jwt.user_a'', CleanupExpiredSessions 30]"
  have i: "\<forall>op \<in> set ?ops. \<not> issues jwt_stub ''jwt.user_a'' op"
    by (simp add: jwt_stub_def bob_def)
  from C7_revocation_terminal [OF h, of ws_alice 0 jwt_stub "chain_env 0" 40]
  obtain us1 ws1 where r: "revokeSession us_alice ws_alice ''jwt.user_a'' = (True, us1, ws1)"
    and f: "fst (revokeSession us1 ws1 ''jwt.user_a'') = False"
    and l: "\<forall>ops. (\<forall>op \<in> set ops. \<not> issues jwt_stub ''jwt.user_a'' op) \<longrightarrow>
        (let later = foldl (step (chain_env 0) jwt_stub) (us1, ws1) ops in
           fst (getUserByToken (fst later) 40 ''jwt.user_a'') = None \<and>
           getUserSession (fst later) ''jwt.user_a'' = None \<and>
           fst (revokeSession (fst later) (snd later) ''jwt.user_a'') = False)"
    by blast
  from l i have "fst (getUserByToken (fst (foldl (step (chain_env 0) jwt_stub) (us1, ws1) ?ops)) 40 ''jwt.user_a'') = None"
    unfolding Let_def by blast
  with h r f show ?thesis by simp
qed


lemma create_bob:
  "createUser us_alice ws_alice (chain_env 0) jwt_stub bob 10 [8453] =
     (Inr \<lparr>s_user = bob_user, s_wallet = bob_wallet, s_token = ''jwt.user_b''\<rparr>,
      \<lparr>users = [(''user_a'', alice_user), (''user_b'', bob_user)],
        userWallets = [(''user_a'', alice_wallet), (''user_b'', bob_wallet)],
        sessionTokens = [(''jwt.user_a'', ''user_a''), (''jwt.user_b'', ''user_b'')],
        userSessions = [(''session_a'', ''user_a''), (''session_b'', ''user_b'')]\<rparr>,
      \<lparr>ws_wallets = [(8453, \<lparr>wl_address = ''0xB'', wl_privateKey = ''0xKeyB''\<rparr>)],
        ws_providers = [8453, 369, 146]\<rparr>)"
  unfolding us_alice_eq ws_alice_eq
  by (simp add: createUser_def generateWallet_def importWallet_def
      chain_env_def jwt_stub_def bob_def bob_user_def bob_wallet_def get9MMConfig_def
      SUPPORTED_9MM_CHAINS_def Let_def)

lemma us_both_eq:
  "us_both = \<lparr>users = [(''user_a'', alice_user), (''user_b'', bob_user)],
        userWallets = [(''user_a'', alice_wallet), (''user_b'', bob_wallet)],
        sessionTokens = [(''jwt.user_a'', ''user_a''), (''jwt.user_b'', ''user_b'')],
        userSessions = [(''session_a'', ''user_a''), (''session_b'', ''user_b'')]\<rparr>"
  by (simp add: us_both_def create_bob)

lemma ws_both_eq:
  "ws_both = \<lparr>ws_wallets = [(8453, \<lparr>wl_address = ''0xB'', wl_privateKey = ''0xKeyB''\<rparr>)],
        ws_providers = [8453, 369, 146]\<rparr>"
  by (simp add: ws_both_def create_bob)

text \<open>
  Claim C10. A \<open>revokeSession\<close> with a valid token calls \<open>disconnectWallet()\<close> without a
  chain id on the shared wallet service: afterwards its connection map is empty and no
  chain is connected, whatever wallets it held before and whoever they belonged to.
\<close>

theorem C10_revocation_disconnects_all:
  assumes "map_of (sessionTokens us) tok = Some uid" and "uid \<noteq> []"
    and "map_of (users us) uid = Some usr"
  shows "\<exists>us1 ws1. revokeSession us ws tok = (True, us1, ws1) \<and>
     ws1 = disconnectWallet ws None \<and> ws_wallets ws1 = [] \<and> (\<forall>cid. \<not> isConnected ws1 cid)"
proof -
  from assms have "revokeSession us ws tok =
     (True,
      us\<lparr>sessionTokens := AList.delete tok (sessionTokens us),
          userSessions := AList.delete (u_sessionId usr) (userSessions us),
          users := AList.delete uid (users us),
          userWallets := AList.delete uid (userWallets us)\<rparr>,
      disconnectWallet ws None)" by (rule revoke_live)
  moreover have "ws_wallets (disconnectWallet ws None) = []" by (simp add: disconnectWallet_def)
  moreover have "\<not> isConnected (disconnectWallet ws None) cid" for cid
    by (simp add: disconnectWallet_def isConnected_def)
  ultimately show ?thesis by blast
qed

theorem C10_witness:
  "map_of (sessionTokens us_both) ''jwt.user_a'' = Some ''user_a'' \<and> ''user_a'' \<noteq> [] \<and>
   map_of (users us_both) ''user_a'' = Some alice_user \<and>
   map_of (ws_wallets ws_both) 8453 = Some \<lparr>wl_address = ''0xB'', wl_privateKey = ''0xKeyB''\<rparr> \<and>
   isConnected ws_both 8453 \<and>
   fst (revokeSession us_both ws_both ''jwt.user_a'') = True \<and>
   \<not> isConnected (snd (snd (revokeSession us_both ws_both ''jwt.user_a''))) 8453"
proof -
  have h: "map_of (sessionTokens us_both) ''jwt.user_a'' = Some ''user_a''" "''user_a'' \<noteq> []"
    "map_of (users us_both) ''user_a'' = Some alice_user"
    by (simp_all add: us_both_eq)
  have c: "map_of (ws_wallets ws_both) 8453 = Some \<lparr>wl_address = ''0xB'', wl_privateKey = ''0xKeyB''\<rparr>"
    "isConnected ws_both 8453"
    by (simp_all add: ws_both_eq isConnected_def)
  from C10_revocation_disconnects_all [OF h, of ws_both]
  obtain us1 ws1 where "revokeSession us_both ws_both ''jwt.user_a'' = (True, us1, ws1)"
    and "\<forall>cid. \<not> isConnected ws1 cid" by blast
  with h c show ?thesis by simp
qed

section \<open>Expired sessions and signing material\<close>


text \<open>
  Claim C9 fails as stated. The value that \<open>createUser\<close> returns carries the private
  key and the mnemonic of the generated wallet, and so does the session that
  \<open>getUserSession\<close> resolves a token to.
\<close>

theorem C9_counterexample:
  "rw_privateKey (e_wallet alice) = ''0xKeyA'' \<and>
   map_sum id (uw_privateKey \<circ> s_wallet)
     (fst (createUser us_empty ws_empty (chain_env 0) jwt_stub alice 0 [8453])) = Inr ''0xKeyA'' \<and>
   map_sum id (uw_mnemonic \<circ> s_wallet)
     (fst (createUser us_empty ws_empty (chain_env 0) jwt_stub alice 0 [8453])) = Inr ''alpha beta'' \<and>
   map_option (uw_privateKey \<circ> s_wallet) (getUserSession us_alice ''jwt.user_a'') = Some ''0xKeyA''"
  unfolding create_alice us_alice_eq
  by (simp add: getUserSession_def alice_def alice_wallet_def)

lemma createUser_session:
  assumes "createUser us ws ch j e now cids = (Inr s, us', ws')"
  shows "uw_privateKey (s_wallet s) = rw_privateKey (e_wallet e)"
    and "uw_mnemonic (s_wallet s) = (case rw_mnemonic (e_wallet e) of Some phrase \<Rightarrow> phrase | None \<Rightarrow> [])"
    and "uw_chainIds (s_wallet s) = cids"
    and "e_userId e \<noteq> [] \<Longrightarrow> getUserSession us' (s_token s) = Some s"
  using assms
  by (auto simp: createUser_def generateWallet_def getUserSession_def Let_def update_conv
      split: prod.splits sum.splits option.splits)

lemma getUserSession_wallet:
  assumes "getUserSession us tok = Some s"
  shows "\<exists>uid. map_of (sessionTokens us) tok = Some uid \<and> getUserWallet us uid = Some (s_wallet s)"
  using assms
  by (auto simp: getUserSession_def getUserWallet_def split: option.splits if_splits)

text \<open>
  Claim C9, amended. \<open>createUser\<close> returns the session together with its wallet record,
  whose private key and mnemonic are those of the generated wallet, and \<open>getUserSession\<close>
  resolves the token to that same session, returning the stored wallet record of the
  token's user. The values returned by \<open>getUserByToken\<close> and \<open>validateToken\<close> do not
  depend on the wallet table: they carry no signing material.
\<close>

theorem C9_signing_material_in_session:
  "(createUser us ws ch j e now cids = (Inr s, us', ws') \<longrightarrow>
      uw_privateKey (s_wallet s) = rw_privateKey (e_wallet e) \<and>
      uw_mnemonic (s_wallet s) = (case rw_mnemonic (e_wallet e) of Some phrase \<Rightarrow> phrase | None \<Rightarrow> []) \<and>
      (e_userId e \<noteq> [] \<longrightarrow> getUserSession us' (s_token s) = Some s)) \<and>
   (getUserSession us2 tok = Some s2 \<longrightarrow>
      (\<exists>uid. map_of (sessionTokens us2) tok = Some uid \<and> getUserWallet us2 uid = Some (s_wallet s2))) \<and>
   fst (getUserByToken (us2\<lparr>userWallets := anyWallets\<rparr>) now2 tok) = fst (getUserByToken us2 now2 tok) \<and>
   fst (validateToken (us2\<lparr>userWallets := anyWallets\<rparr>) j now2 tok) = fst (validateToken us2 j now2 tok)"
proof (intro conjI impI)
  assume c: "createUser us ws ch j e now cids = (Inr s, us', ws')"
  from createUser_session(1) [OF c] show "uw_privateKey (s_wallet s) = rw_privateKey (e_wallet e)" .
  from createUser_session(2) [OF c]
  show "uw_mnemonic (s_wallet s) = (case rw_mnemonic (e_wallet e) of Some phrase \<Rightarrow> phrase | None \<Rightarrow> [])" .
  assume "e_userId e \<noteq> []"
  with createUser_session(4) [OF c] show "getUserSession us' (s_token s) = Some s" .
next
  assume "getUserSession us2 tok = Some s2"
  then show "\<exists>uid. map_of (sessionTokens us2) tok = Some uid \<and> getUserWallet us2 uid = Some (s_wallet s2)"
    by (rule getUserSession_wallet)
next
  show "fst (getUserByToken (us2\<lparr>userWallets := anyWallets\<rparr>) now2 tok) = fst (getUserByToken us2 now2 tok)"
    by (simp add: getUserByToken_def Let_def split: option.splits)
next
  show "fst (validateToken (us2\<lparr>userWallets := anyWallets\<rparr>) j now2 tok) = fst (validateToken us2 j now2 tok)"
    by (simp add: validateToken_def split: option.splits)
qed

theorem C9_witness:
  "createUser us_empty ws_empty (chain_env 0) jwt_stub alice 0 [8453] =
     (Inr \<lparr>s_user = alice_user, s_wallet = alice_wallet, s_token = ''jwt.user_a''\<rparr>, us_alice, ws_alice) \<and>
   e_userId alice \<noteq> [] \<and>
   uw_privateKey alice_wallet = rw_privateKey (e_wallet alice) \<and>
   getUserSession us_alice ''jwt.user_a'' =
     Some \<lparr>s_user = alice_user, s_wallet = alice_wallet, s_token = ''jwt.user_a''\<rparr> \<and>
   getUserWallet us_alice ''user_a'' = Some alice_wallet"
proof -
  let ?s = "\<lparr>s_user = alice_user, s_wallet = alice_wallet, s_token = ''jwt.user_a''\<rparr>"
  have c: "createUser us_empty ws_empty (chain_env 0) jwt_stub alice 0 [8453] = (Inr ?s, us_alice, ws_alice)"
    by (simp add: create_alice us_alice_eq ws_alice_eq)
  have n: "e_userId alice \<noteq> []" by (simp add: alice_def)
  note inst = C9_signing_material_in_session
      [where us = us_empty and ws = ws_empty and ch = "chain_env 0" and j = jwt_stub and e = alice
         and now = 0 and cids = "[8453]" and s = ?s and us' = us_alice and ws' = ws_alice
         and ?us2.0 = us_alice and tok = "''jwt.user_a''" and ?s2.0 = ?s]
  from inst c n have k: "uw_privateKey alice_wallet = rw_privateKey (e_wallet alice)"
    and g: "getUserSession us_alice ''jwt.user_a'' = Some ?s" by simp_all
  from inst g obtain uid where "map_of (sessionTokens us_alice) ''jwt.user_a'' = Some uid"
    "getUserWallet us_alice uid = Some alice_wallet" by auto
  moreover have "map_of (sessionTokens us_alice) ''jwt.user_a'' = Some ''user_a''"
    by (simp add: us_alice_eq)
  ultimately have "getUserWallet us_alice ''user_a'' = Some alice_wallet" by simp
  with c n k g show ?thesis by simp
qed

end
